theory Spec2Isabelle
  imports Complex_Main "HOL-Library.Char_ord" "HOL-Library.List_Lexorder" "HOL-Library.Word"
begin

section \<open>Data model of \<^verbatim>\<open>analyze_transfers.py\<close>\<close>

text \<open>
  Python floats and numpy float arrays are modelled by \<^typ>\<open>real\<close> (rounding is not
  modelled), Python ints by \<^typ>\<open>int\<close>, lengths and occurrence counts by \<^typ>\<open>nat\<close>,
  Python strings by \<^typ>\<open>string\<close>. The elements of a numpy integer array that enters
  array arithmetic are 64-bit words (\<^verbatim>\<open>int64\<close>): their sum wraps around, and \<open>sint\<close> reads
  the integer an element denotes. Strings are ordered lexicographically, character
  by character, as Python orders \<^verbatim>\<open>str\<close>.
\<close>

datatype error =
    KeyError
  | IndexError
  | ValueError
  | ZeroDivisionError
  | FileNotFoundError
  | NotADirectoryError
  | OSError
  | SystemExit nat

text \<open>Sequencing of fallible steps: the first exception raised ends the computation.\<close>

definition bind_err :: "error + 'a \<Rightarrow> ('a \<Rightarrow> error + 'b) \<Rightarrow> error + 'b" where
  "bind_err m f = (case m of Inl e \<Rightarrow> Inl e | Inr x \<Rightarrow> f x)"

text \<open>
  The array container read by \<^verbatim>\<open>np.load\<close>: one entry per series name of the artifact,
  \<open>None\<close> when the container has no entry of that name (\<^verbatim>\<open>name in data\<close> is false and
  \<^verbatim>\<open>data[name]\<close> raises \<^verbatim>\<open>KeyError\<close>). The element type of each series is the one the
  simulation writes.
\<close>

record npz =
  metadata_parallel_enabled :: "int list option"
  metadata_total_nodes :: "int list option"
  metadata_simulation_end_time :: "real list option"
  metadata_data_loss_events :: "int list option"
  metadata_nodes_with_data_loss :: "int list option"
  transfer_times :: "real list option"
  transfer_types :: "string list option"
  transfer_durations :: "real list option"
  uploaders :: "string list option"
  downloaders :: "string list option"
  sim_times :: "real list option"
  sim_uploads :: "64 word list option"
  sim_downloads :: "64 word list option"
  bw_times :: "real list option"
  bw_upload_used :: "real list option"
  bw_upload_capacity :: "real list option"
  bw_download_used :: "real list option"
  bw_download_capacity :: "real list option"

text \<open>\<^verbatim>\<open>data[name][i]\<close>: \<^verbatim>\<open>KeyError\<close> for a missing series, \<^verbatim>\<open>IndexError\<close> out of range.\<close>

definition item :: "'a list option \<Rightarrow> nat \<Rightarrow> error + 'a" where
  "item series i =
     (case series of
        None \<Rightarrow> Inl KeyError
      | Some xs \<Rightarrow> if i < length xs then Inr (xs ! i) else Inl IndexError)"

text \<open>\<^verbatim>\<open>data[name]\<close> alone.\<close>

definition series_of :: "'a list option \<Rightarrow> error + 'a list" where
  "series_of series = (case series of None \<Rightarrow> Inl KeyError | Some xs \<Rightarrow> Inr xs)"

record metadata =
  parallel_enabled :: bool
  total_nodes :: int
  simulation_end_time :: real
  data_loss_events :: int
  nodes_with_data_loss :: int

text \<open>One transfer completion: \<^verbatim>\<open>[time, transfer_type, duration, uploader, downloader]\<close>.\<close>

type_synonym transfer = "real \<times> string \<times> real \<times> string \<times> string"

record metrics =
  transfer_completions :: "transfer list"
  bandwidth_snapshots :: string
  simultaneous_transfers :: string

record sim_record =
  metadata :: metadata
  metrics :: metrics
  raw_data :: npz

section \<open>Aggregator: transfers per node\<close>

text \<open>
  A \<^verbatim>\<open>defaultdict(int)\<close> as an association list in insertion order. \<open>dd_incr\<close> is
  \<^verbatim>\<open>d[k] += 1\<close>, \<open>dd_get\<close> is the value of \<^verbatim>\<open>d[k]\<close> (0 for a key never stored),
  \<open>dd_keys\<close> is \<^verbatim>\<open>list(d.keys())\<close>.
\<close>

type_synonym counts = "(string \<times> nat) list"

fun dd_incr :: "counts \<Rightarrow> string \<Rightarrow> counts" where
  "dd_incr [] k = [(k, 0 + 1)]"
| "dd_incr ((k', c) # d) k =
     (if k' = k then (k', c + 1) # d else (k', c) # dd_incr d k)"

definition dd_get :: "counts \<Rightarrow> string \<Rightarrow> nat" where
  "dd_get d k = (case map_of d k of None \<Rightarrow> 0 | Some c \<Rightarrow> c)"

definition dd_keys :: "counts \<Rightarrow> string list" where
  "dd_keys d = map fst d"

text \<open>The loop of \<^verbatim>\<open>analyze_transfers_by_node\<close>, one step per transfer.\<close>

fun count_transfers :: "transfer list \<Rightarrow> counts \<times> counts \<Rightarrow> counts \<times> counts" where
  "count_transfers [] (upload_counts, download_counts) = (upload_counts, download_counts)"
| "count_transfers ((time, transfer_type, duration, uploader, downloader) # transfers)
       (upload_counts, download_counts) =
     count_transfers transfers (dd_incr upload_counts uploader, dd_incr download_counts downloader)"

definition analyze_transfers_by_node :: "sim_record \<Rightarrow> counts \<times> counts" where
  "analyze_transfers_by_node data =
     count_transfers (transfer_completions (metrics data)) ([], [])"

text \<open>\<^verbatim>\<open>sorted(set(xs))\<close>.\<close>

definition sorted_set :: "string list \<Rightarrow> string list" where
  "sorted_set xs = sorted_list_of_set (set xs)"

text \<open>
  Lines 191 to 194 of \<^verbatim>\<open>create_analysis_plot\<close>: the node list and the two bar series
  of panel 2.
\<close>

definition transfers_per_node :: "sim_record \<Rightarrow> string list \<times> nat list \<times> nat list" where
  "transfers_per_node data =
     (case analyze_transfers_by_node data of
        (upload_counts, download_counts) \<Rightarrow>
          let nodes = sorted_set (dd_keys upload_counts @ dd_keys download_counts);
              uploads = map (dd_get upload_counts) nodes;
              downloads = map (dd_get download_counts) nodes
          in (nodes, uploads, downloads))"

section \<open>Loader\<close>

text \<open>
  Lines 57 to 66 of \<^verbatim>\<open>process_data\<close>: the five required scalars, read in the order
  of the dictionary display; \<^verbatim>\<open>bool(x)\<close> of a number is \<open>x \<noteq> 0\<close>.
\<close>

definition read_metadata :: "npz \<Rightarrow> error + metadata" where
  "read_metadata data =
     bind_err (item (metadata_parallel_enabled data) 0) (\<lambda>pe.
     bind_err (item (metadata_total_nodes data) 0) (\<lambda>tn.
     bind_err (item (metadata_simulation_end_time data) 0) (\<lambda>et.
     bind_err (item (metadata_data_loss_events data) 0) (\<lambda>dl.
     bind_err (item (metadata_nodes_with_data_loss data) 0) (\<lambda>nl.
     Inr \<lparr>parallel_enabled = (pe \<noteq> 0), total_nodes = tn, simulation_end_time = et,
          data_loss_events = dl, nodes_with_data_loss = nl\<rparr>)))))"

text \<open>The element appended in iteration \<open>i\<close> of the loop of lines 74 to 83.\<close>

definition transfer_at :: "npz \<Rightarrow> nat \<Rightarrow> error + transfer" where
  "transfer_at data i =
     bind_err (item (transfer_times data) i) (\<lambda>time.
     bind_err (item (transfer_types data) i) (\<lambda>transfer_type.
     bind_err (item (transfer_durations data) i) (\<lambda>duration.
     bind_err (item (uploaders data) i) (\<lambda>uploader.
     bind_err (item (downloaders data) i) (\<lambda>downloader.
     Inr (time, transfer_type, duration, uploader, downloader))))))"

text \<open>The loop itself, over the indices of \<^verbatim>\<open>range(len(data["transfer_times"]))\<close>.\<close>

fun build_transfers :: "npz \<Rightarrow> nat list \<Rightarrow> error + transfer list" where
  "build_transfers data [] = Inr []"
| "build_transfers data (i # rest) =
     bind_err (transfer_at data i) (\<lambda>t.
     bind_err (build_transfers data rest) (\<lambda>ts. Inr (t # ts)))"

definition process_data :: "npz \<Rightarrow> error + sim_record" where
  "process_data data =
     bind_err (read_metadata data) (\<lambda>md.
     bind_err
       (case transfer_times data of
          Some tt \<Rightarrow> build_transfers data [0 ..< length tt]
        | None \<Rightarrow> Inr [])
       (\<lambda>completions.
     Inr \<lparr>metadata = md,
          metrics = \<lparr>transfer_completions = completions,
                     bandwidth_snapshots = ''use_raw_data'',
                     simultaneous_transfers = ''use_raw_data''\<rparr>,
          raw_data = data\<rparr>))"

text \<open>
  What \<^verbatim>\<open>np.load\<close> meets at each path: the container stored there, or the error that
  opening the path raises. That is \<^verbatim>\<open>FileNotFoundError\<close> when no file of that name
  exists in an existing directory, and another error otherwise, such as
  \<^verbatim>\<open>NotADirectoryError\<close> for a path through a plain file or \<^verbatim>\<open>OSError\<close> for a name
  that is too long.
\<close>

type_synonym filesystem = "string \<Rightarrow> error + npz"

definition np_load :: "filesystem \<Rightarrow> string \<Rightarrow> error + npz" where
  "np_load fs filename = fs filename"

text \<open>\<^verbatim>\<open>s.endswith(suffix)\<close>.\<close>

definition endswith :: "string \<Rightarrow> string \<Rightarrow> bool" where
  "endswith s suffix =
     (length suffix \<le> length s \<and> drop (length s - length suffix) s = suffix)"

text \<open>The records handed to \<^verbatim>\<open>logging\<close>, one constructor per message of the script.\<close>

datatype log_record =
    Info_banner
  | Info_rule
  | Info_loaded string nat
  | Info_simulation_time real
  | Info_total_nodes int
  | Info_data_loss_events int
  | Info_generating string
  | Info_complete string
  | Error_filename_required
  | Error_data_file_not_found string
  | Error_run_simulation_first
  | Error_during_analysis error

text \<open>
  \<^verbatim>\<open>load_metrics\<close> returns the messages it logged and its result; \<^verbatim>\<open>sys.exit(1)\<close>
  raises \<open>SystemExit 1\<close>. Each \<^verbatim>\<open>try\<close> block covers the load and \<^verbatim>\<open>process_data\<close>,
  and only \<^verbatim>\<open>FileNotFoundError\<close> is caught.
\<close>

definition load_metrics :: "filesystem \<Rightarrow> string \<Rightarrow> log_record list \<times> (error + sim_record)" where
  "load_metrics fs filename =
     (let first_try = bind_err (np_load fs filename) process_data in
      if first_try \<noteq> Inl FileNotFoundError then ([], first_try)
      else
        let filename' = (if \<not> endswith filename ''.npz'' then filename @ ''.npz'' else filename);
            second_try = bind_err (np_load fs filename') process_data
        in if second_try \<noteq> Inl FileNotFoundError then ([], second_try)
           else ([Error_data_file_not_found filename'], Inl (SystemExit 1)))"

section \<open>Renderer\<close>

subsection \<open>Array operations\<close>

text \<open>
  \<^verbatim>\<open>xs[::k]\<close>: the slice has \<open>\<lceil>len / k\<rceil>\<close> items, item \<open>i\<close> being \<^verbatim>\<open>xs[i * k]\<close>; a step
  of zero raises \<^verbatim>\<open>ValueError\<close>.
\<close>

definition slice_step :: "'a list \<Rightarrow> nat \<Rightarrow> error + 'a list" where
  "slice_step xs k =
     (if k = 0 then Inl ValueError
      else Inr (map (\<lambda>i. xs ! (i * k)) [0 ..< (length xs + k - 1) div k]))"

text \<open>
  An elementwise binary operation on two one-dimensional arrays, with numpy's
  broadcasting of an array of length one.
\<close>

definition broadcast2 :: "('a \<Rightarrow> 'b \<Rightarrow> 'c) \<Rightarrow> 'a list \<Rightarrow> 'b list \<Rightarrow> error + 'c list" where
  "broadcast2 f xs ys =
     (if length xs = length ys then Inr (map2 f xs ys)
      else if length xs = 1 then Inr (map (f (hd xs)) ys)
      else if length ys = 1 then Inr (map (\<lambda>x. f x (hd ys)) xs)
      else Inl ValueError)"

text \<open>
  \<^verbatim>\<open>np.max\<close> of an \<^verbatim>\<open>int64\<close> array: the largest of the integers its elements
  denote; it raises \<^verbatim>\<open>ValueError\<close> on an empty array.
\<close>

definition np_max :: "64 word list \<Rightarrow> error + int" where
  "np_max xs =
     (case xs of
        [] \<Rightarrow> Inl ValueError
      | x # rest \<Rightarrow> Inr (fold max (map sint rest) (sint x)))"

text \<open>
  \<^verbatim>\<open>ax.plot(x, y)\<close>: \<^verbatim>\<open>ValueError\<close> when the two series differ in length.
\<close>

definition plot_line :: "'a list \<Rightarrow> 'b list \<Rightarrow> error + unit" where
  "plot_line xs ys = (if length xs = length ys then Inr () else Inl ValueError)"

text \<open>\<^verbatim>\<open>np.mean\<close>; the mean of an empty array is \<^verbatim>\<open>nan\<close>, written \<open>None\<close>.\<close>

definition np_mean :: "real list \<Rightarrow> real option" where
  "np_mean xs = (if xs = [] then None else Some (sum_list xs / real (length xs)))"

subsection \<open>Panel 1: cumulative transfers and the concurrency overlay\<close>

text \<open>Lines 133 and 134: the two series of the cumulative line.\<close>

definition cumulative_series :: "transfer list \<Rightarrow> real list \<times> nat list" where
  "cumulative_series transfers =
     (let transfer_times' = map (\<lambda>t. fst t / (24 * 3600)) transfers;
          transfer_cumulative' = [1 ..< length transfer_times' + 1]
      in (transfer_times', transfer_cumulative'))"

text \<open>
  The condition of lines 146 and 232:
  \<^verbatim>\<open>is_parallel and "sim_times" in raw_data and len(raw_data["sim_times"]) > 0\<close>.
\<close>

definition has_concurrency :: "bool \<Rightarrow> npz \<Rightarrow> bool" where
  "has_concurrency is_parallel raw =
     (is_parallel \<and> (case sim_times raw of None \<Rightarrow> False | Some st \<Rightarrow> 0 < length st))"

text \<open>
  \<^verbatim>\<open>raw_data["sim_uploads"][::sample_step] + raw_data["sim_downloads"][::sample_step]\<close>
  with \<^verbatim>\<open>sample_step = max(1, len(raw_data["sim_times"]) // target)\<close> (lines 147 and
  151 to 154 with target 2000, lines 233 to 237 with target 1000).
\<close>

definition sample_step_of :: "nat \<Rightarrow> nat \<Rightarrow> nat" where
  "sample_step_of len target = max 1 (len div target)"

definition sampled :: "'a list option \<Rightarrow> nat \<Rightarrow> error + 'a list" where
  "sampled series sample_step =
     bind_err (series_of series) (\<lambda>xs. slice_step xs sample_step)"

definition concurrent_total :: "npz \<Rightarrow> nat \<Rightarrow> error + 64 word list" where
  "concurrent_total raw sample_step =
     bind_err (sampled (sim_uploads raw) sample_step) (\<lambda>ups.
     bind_err (sampled (sim_downloads raw) sample_step) (\<lambda>downs.
     broadcast2 (+) ups downs))"

record overlay =
  overlay_times :: "real list"
  overlay_concurrent :: "int list"
  overlay_max :: int

text \<open>
  Lines 146 to 180: the secondary line of panel 1, \<open>None\<close> when it is not drawn. The
  line is plotted (line 158) before the maximum is taken (line 175); the record holds
  the integers that the plotted elements denote.
\<close>

definition concurrency_overlay :: "bool \<Rightarrow> npz \<Rightarrow> error + overlay option" where
  "concurrency_overlay is_parallel raw =
     (if has_concurrency is_parallel raw then
        bind_err (series_of (sim_times raw)) (\<lambda>st.
        let sample_step = sample_step_of (length st) 2000 in
        bind_err (sampled (sim_times raw) sample_step) (\<lambda>st'.
        let sim_times_days = map (\<lambda>x. x / (24 * 3600)) st' in
        bind_err (concurrent_total raw sample_step) (\<lambda>total_concurrent.
        bind_err (plot_line sim_times_days total_concurrent) (\<lambda>_.
        bind_err (if 0 < length total_concurrent then np_max total_concurrent else Inr 0)
          (\<lambda>max_concurrent.
        Inr (Some \<lparr>overlay_times = sim_times_days,
                   overlay_concurrent = map sint total_concurrent,
                   overlay_max = max_concurrent\<rparr>))))))
      else Inr None)"

text \<open>
  Panel 1 as drawn: the cumulative line, the overlay, and the numbers of the title
  (\<^verbatim>\<open>Total: n transfers\<close>, followed by \<^verbatim>\<open>| Max Concurrent: m\<close> with the overlay).
\<close>

record panel1 =
  line_times :: "real list"
  line_cumulative :: "nat list"
  twin :: "overlay option"
  title_total :: nat
  title_max_concurrent :: "int option"

text \<open>Lines 132 to 188; nothing is drawn for an empty transfer list.\<close>

definition draw_panel1 :: "sim_record \<Rightarrow> error + panel1 option" where
  "draw_panel1 data =
     (let transfers = transfer_completions (metrics data);
          total_transfers = length transfers;
          is_parallel = parallel_enabled (metadata data)
      in if transfers \<noteq> [] then
           (case cumulative_series transfers of
              (transfer_times', transfer_cumulative') \<Rightarrow>
                bind_err (concurrency_overlay is_parallel (raw_data data)) (\<lambda>ov.
                Inr (Some \<lparr>line_times = transfer_times',
                           line_cumulative = transfer_cumulative',
                           twin = ov,
                           title_total = total_transfers,
                           title_max_concurrent = map_option overlay_max ov\<rparr>)))
         else Inr None)"

subsection \<open>Panel 3: summary statistics\<close>

text \<open>Python's \<^verbatim>\<open>a / b\<close>, which raises \<^verbatim>\<open>ZeroDivisionError\<close> for a zero divisor.\<close>

definition truediv :: "real \<Rightarrow> real \<Rightarrow> error + real" where
  "truediv a b = (if b = 0 then Inl ZeroDivisionError else Inr (a / b))"

text \<open>Line 118.\<close>

definition sim_time_years :: "sim_record \<Rightarrow> real" where
  "sim_time_years data = simulation_end_time (metadata data) / (365.25 * 24 * 3600)"

text \<open>Line 210.\<close>

definition avg_transfers_per_node :: "sim_record \<Rightarrow> error + real" where
  "avg_transfers_per_node data =
     (let total_transfers = length (transfer_completions (metrics data));
          total_nodes = total_nodes (metadata data)
      in if total_nodes > 0 then truediv (real total_transfers) (real_of_int total_nodes)
         else Inr 0)"

text \<open>Line 211.\<close>

definition transfers_per_year :: "sim_record \<Rightarrow> error + real" where
  "transfers_per_year data =
     (let total_transfers = length (transfer_completions (metrics data))
      in if sim_time_years data > 0 then truediv (real total_transfers) (sim_time_years data)
         else Inr 0)"

text \<open>
  Lines 217 to 221: the four bandwidth series, each sliced with the step computed from
  the length of \<^verbatim>\<open>bw_times\<close>.
\<close>

definition bandwidth_window ::
  "npz \<Rightarrow> error + (real list \<times> real list \<times> real list \<times> real list)" where
  "bandwidth_window raw =
     bind_err (series_of (bw_times raw)) (\<lambda>bt.
     let sample_step = sample_step_of (length bt) 1000 in
     bind_err (sampled (bw_upload_used raw) sample_step) (\<lambda>upload_used.
     bind_err (sampled (bw_upload_capacity raw) sample_step) (\<lambda>upload_capacity.
     bind_err (sampled (bw_download_used raw) sample_step) (\<lambda>download_used.
     bind_err (sampled (bw_download_capacity raw) sample_step) (\<lambda>download_capacity.
     Inr (upload_used, upload_capacity, download_used, download_capacity))))))"

text \<open>
  \<^verbatim>\<open>np.mean(used / np.maximum(capacity, 1)) * 100\<close>; \<open>None\<close> is \<^verbatim>\<open>nan\<close>. Every divisor
  is at least 1, so the quotient of the reals is the quotient numpy computes.
\<close>

definition utilization :: "real list \<Rightarrow> real list \<Rightarrow> error + real option" where
  "utilization used capacity =
     bind_err (broadcast2 (/) used (map (\<lambda>c. max c 1) capacity)) (\<lambda>ratio.
     Inr (map_option (\<lambda>m. m * 100) (np_mean ratio)))"

text \<open>Lines 213 to 228: \<open>(avg_upload_util, avg_download_util)\<close>.\<close>

definition bandwidth_stats :: "npz \<Rightarrow> error + (real option \<times> real option)" where
  "bandwidth_stats raw =
     (if (case bw_times raw of None \<Rightarrow> False | Some bt \<Rightarrow> 0 < length bt) then
        bind_err (bandwidth_window raw) (\<lambda>(upload_used, upload_capacity, download_used, download_capacity).
        bind_err (utilization upload_used upload_capacity) (\<lambda>avg_upload_util.
        bind_err (utilization download_used download_capacity) (\<lambda>avg_download_util.
        Inr (avg_upload_util, avg_download_util))))
      else Inr (Some 0, Some 0))"

text \<open>
  Lines 230 to 244: the numbers of the string \<^verbatim>\<open>concurrent_stats\<close>, as
  \<open>(max_concurrent, avg_concurrent)\<close>; \<open>None\<close> is the empty string.
\<close>

definition concurrent_stats :: "bool \<Rightarrow> npz \<Rightarrow> error + (int \<times> real option) option" where
  "concurrent_stats is_parallel raw =
     (if has_concurrency is_parallel raw then
        bind_err (series_of (sim_times raw)) (\<lambda>st.
        let sample_step = sample_step_of (length st) 1000 in
        bind_err (concurrent_total raw sample_step) (\<lambda>concurrent_data.
        bind_err (if 0 < length concurrent_data then np_max concurrent_data else Inr 0)
          (\<lambda>max_concurrent.
        let avg_concurrent =
              (if 0 < length concurrent_data
               then np_mean (map (\<lambda>c. real_of_int (sint c)) concurrent_data)
               else Some 0)
        in Inr (Some (max_concurrent, avg_concurrent)))))
      else Inr None)"

text \<open>
  The values interpolated into \<^verbatim>\<open>stats_text\<close> (lines 246 to 254), in the order of
  its lines. The string has no other placeholder.
\<close>

record stats_text =
  stat_total_transfers :: nat
  stat_simulation_time :: real
  stat_total_nodes :: int
  stat_avg_transfers_per_node :: real
  stat_transfers_per_year :: real
  stat_data_loss_events :: int

subsection \<open>The figure\<close>

record panel2 =
  bar_nodes :: "string list"
  bar_uploads :: "nat list"
  bar_downloads :: "nat list"

text \<open>
  The figure as saved: the super-title (mode name and years), and the three panels.
\<close>

record figure =
  suptitle :: "string \<times> real"
  ax1 :: "panel1 option"
  ax2 :: panel2
  ax3 :: stats_text

text \<open>
  \<^verbatim>\<open>create_analysis_plot\<close>; the result is the file written by \<^verbatim>\<open>plt.savefig\<close>, its
  path and its content. Of the plotting calls only the plot of the overlay can meet
  series of different lengths (\<open>plot_line\<close> in \<open>concurrency_overlay\<close>); the others get
  series of equal length by construction, and \<^verbatim>\<open>plt.savefig\<close> is taken to succeed.
\<close>

definition create_analysis_plot :: "sim_record \<Rightarrow> string \<Rightarrow> error + (string \<times> figure)" where
  "create_analysis_plot data filepath =
     (let transfers = transfer_completions (metrics data);
          total_transfers = length transfers;
          raw = raw_data data;
          is_parallel = parallel_enabled (metadata data);
          mode_name = (if is_parallel then ''Parallel'' else ''Single'')
      in
        bind_err (draw_panel1 data) (\<lambda>panel_1.
        case transfers_per_node data of (nodes, uploads, downloads) \<Rightarrow>
        bind_err (avg_transfers_per_node data) (\<lambda>avg_per_node.
        bind_err (transfers_per_year data) (\<lambda>per_year.
        bind_err (bandwidth_stats raw) (\<lambda>utils.
        bind_err (concurrent_stats is_parallel raw) (\<lambda>conc_stats.
        Inr (filepath,
             \<lparr>suptitle = (mode_name, sim_time_years data),
              ax1 = panel_1,
              ax2 = \<lparr>bar_nodes = nodes, bar_uploads = uploads, bar_downloads = downloads\<rparr>,
              ax3 = \<lparr>stat_total_transfers = total_transfers,
                     stat_simulation_time = sim_time_years data,
                     stat_total_nodes = total_nodes (metadata data),
                     stat_avg_transfers_per_node = avg_per_node,
                     stat_transfers_per_year = per_year,
                     stat_data_loss_events = data_loss_events (metadata data)\<rparr>\<rparr>)))))))"

definition plot_single_mode_analysis :: "sim_record \<Rightarrow> string \<Rightarrow> error + (string \<times> figure)" where
  "plot_single_mode_analysis data filepath = create_analysis_plot data filepath"

definition plot_parallel_mode_analysis :: "sim_record \<Rightarrow> string \<Rightarrow> error + (string \<times> figure)" where
  "plot_parallel_mode_analysis data filepath = create_analysis_plot data filepath"

section \<open>The script\<close>

text \<open>What one invocation leaves: its exit status, its log, and the image file written.\<close>

record outcome =
  exit_status :: nat
  logged :: "log_record list"
  saved :: "(string \<times> figure) option"

text \<open>
  The handlers of lines 336 to 342. \<open>SystemExit\<close> is not an \<^verbatim>\<open>Exception\<close>: it passes both
  handlers and ends the process with its status.
\<close>

definition on_exception :: "string \<Rightarrow> log_record list \<Rightarrow> error \<Rightarrow> outcome" where
  "on_exception filename so_far e =
     (case e of
        SystemExit status \<Rightarrow> \<lparr>exit_status = status, logged = so_far, saved = None\<rparr>
      | FileNotFoundError \<Rightarrow>
          \<lparr>exit_status = 1,
           logged = so_far @ [Error_data_file_not_found filename, Error_run_simulation_first],
           saved = None\<rparr>
      | _ \<Rightarrow> \<lparr>exit_status = 1, logged = so_far @ [Error_during_analysis e], saved = None\<rparr>)"

text \<open>\<^verbatim>\<open>main\<close>, from the parsed arguments \<^verbatim>\<open>filename\<close> and \<^verbatim>\<open>--plot-name\<close>.\<close>

definition main :: "filesystem \<Rightarrow> string \<Rightarrow> string \<Rightarrow> outcome" where
  "main fs filename plot_name =
     (if filename = [] then
        \<lparr>exit_status = 1, logged = [Error_filename_required], saved = None\<rparr>
      else
        case load_metrics fs filename of
          (load_log, loaded) \<Rightarrow>
            let log0 = [Info_banner, Info_rule] @ load_log in
            (case loaded of
               Inl e \<Rightarrow> on_exception filename log0 e
             | Inr data \<Rightarrow>
                 let is_parallel = parallel_enabled (metadata data);
                     mode_name = (if is_parallel then ''parallel'' else ''single'');
                     log1 = log0 @
                       [Info_loaded mode_name (length (transfer_completions (metrics data))),
                        Info_simulation_time
                          (simulation_end_time (metadata data) / (365.25 * 24 * 3600)),
                        Info_total_nodes (total_nodes (metadata data)),
                        Info_data_loss_events (data_loss_events (metadata data)),
                        Info_generating mode_name]
                 in (case (if is_parallel then plot_parallel_mode_analysis data plot_name
                           else plot_single_mode_analysis data plot_name) of
                       Inl e \<Rightarrow> on_exception filename log1 e
                     | Inr file \<Rightarrow>
                         \<lparr>exit_status = 0,
                          logged = log1 @ [Info_complete plot_name],
                          saved = Some file\<rparr>)))"

section \<open>Reference notions and example inputs\<close>

text \<open>The fourth and fifth component of a transfer completion.\<close>

definition uploader_of :: "transfer \<Rightarrow> string" where
  "uploader_of t = (case t of (time, transfer_type, duration, uploader, downloader) \<Rightarrow> uploader)"

definition downloader_of :: "transfer \<Rightarrow> string" where
  "downloader_of t = (case t of (time, transfer_type, duration, uploader, downloader) \<Rightarrow> downloader)"

definition abc_npz :: npz where
  "abc_npz =
     \<lparr>metadata_parallel_enabled = Some [0],
      metadata_total_nodes = Some [3],
      metadata_simulation_end_time = Some [172800],
      metadata_data_loss_events = Some [0],
      metadata_nodes_with_data_loss = Some [0],
      transfer_times = Some [0, 43200, 86400],
      transfer_types = Some [''x'', ''x'', ''x''],
      transfer_durations = Some [5, 6, 7],
      uploaders = Some [''A'', ''B'', ''A''],
      downloaders = Some [''B'', ''A'', ''C''],
      sim_times = None, sim_uploads = None, sim_downloads = None,
      bw_times = None, bw_upload_used = None, bw_upload_capacity = None,
      bw_download_used = None, bw_download_capacity = None\<rparr>"

definition abc_record :: sim_record where
  "abc_record =
     \<lparr>metadata = \<lparr>parallel_enabled = False, total_nodes = 3, simulation_end_time = 172800,
                  data_loss_events = 0, nodes_with_data_loss = 0\<rparr>,
      metrics = \<lparr>transfer_completions =
                   [(0, ''x'', 5, ''A'', ''B''), (43200, ''x'', 6, ''B'', ''A''),
                    (86400, ''x'', 7, ''A'', ''C'')],
                 bandwidth_snapshots = ''use_raw_data'',
                 simultaneous_transfers = ''use_raw_data''\<rparr>,
      raw_data = abc_npz\<rparr>"

text \<open>A directory holding \<^verbatim>\<open>run.npz\<close> and nothing else, and an empty directory.\<close>

definition run_fs :: filesystem where
  "run_fs = (\<lambda>name. if name = ''run.npz'' then Inr abc_npz else Inl FileNotFoundError)"

definition empty_fs :: filesystem where
  "empty_fs = (\<lambda>name. Inl FileNotFoundError)"

text \<open>
  The example run with no node and a simulated time of exactly one year, and with no
  node and no simulated time.
\<close>

definition nodeless_npz :: npz where
  "nodeless_npz =
     abc_npz\<lparr>metadata_total_nodes := Some [0], metadata_simulation_end_time := Some [31557600]\<rparr>"

definition nodeless_record :: sim_record where
  "nodeless_record =
     abc_record\<lparr>metadata := (metadata abc_record)\<lparr>total_nodes := 0, simulation_end_time := 31557600\<rparr>,
                raw_data := nodeless_npz\<rparr>"

definition idle_npz :: npz where
  "idle_npz =
     abc_npz\<lparr>metadata_total_nodes := Some [0], metadata_simulation_end_time := Some [0]\<rparr>"

definition idle_record :: sim_record where
  "idle_record =
     abc_record\<lparr>metadata := (metadata abc_record)\<lparr>total_nodes := 0, simulation_end_time := 0\<rparr>,
                raw_data := idle_npz\<rparr>"

text \<open>The figure of the example run.\<close>

definition abc_figure :: figure where
  "abc_figure =
     \<lparr>suptitle = (''Single'', 8 / 1461),
      ax1 = Some \<lparr>line_times = [0, 1 / 2, 1], line_cumulative = [1, 2, 3], twin = None,
                  title_total = 3, title_max_concurrent = None\<rparr>,
      ax2 = \<lparr>bar_nodes = [''A'', ''B'', ''C''], bar_uploads = [2, 1, 0],
             bar_downloads = [1, 1, 1]\<rparr>,
      ax3 = \<lparr>stat_total_transfers = 3, stat_simulation_time = 8 / 1461, stat_total_nodes = 3,
             stat_avg_transfers_per_node = 1, stat_transfers_per_year = 4383 / 8,
             stat_data_loss_events = 0\<rparr>\<rparr>"


text \<open>Every \<open>k\<close>-th sample of a series: the samples whose index is a multiple of \<open>k\<close>.\<close>

definition every_kth :: "nat \<Rightarrow> 'a list \<Rightarrow> 'a list" where
  "every_kth k xs = map (nth xs) (filter (\<lambda>i. k dvd i) [0 ..< length xs])"

text \<open>The arithmetic mean.\<close>

definition mean :: "real list \<Rightarrow> real" where
  "mean xs = sum_list xs / real (length xs)"

text \<open>A parallel run with concurrency and bandwidth samples, one of them of capacity 0.\<close>

definition par_npz :: npz where
  "par_npz =
     abc_npz\<lparr>metadata_parallel_enabled := Some [1],
             sim_times := Some [0, 43200, 86400, 129600],
             sim_uploads := Some [1, 2, 0, 1],
             sim_downloads := Some [1, 1, 0, 2],
             bw_times := Some [0, 86400],
             bw_upload_used := Some [50, 0],
             bw_upload_capacity := Some [100, 0],
             bw_download_used := Some [30, 10],
             bw_download_capacity := Some [60, 40]\<rparr>"

definition par_record :: sim_record where
  "par_record =
     abc_record\<lparr>metadata := (metadata abc_record)\<lparr>parallel_enabled := True\<rparr>,
                raw_data := par_npz\<rparr>"


text \<open>The figure of the parallel run.\<close>

definition par_figure :: figure where
  "par_figure =
     \<lparr>suptitle = (''Parallel'', 8 / 1461),
      ax1 = Some \<lparr>line_times = [0, 1 / 2, 1], line_cumulative = [1, 2, 3],
                  twin = Some \<lparr>overlay_times = [0, 1 / 2, 1, 3 / 2],
                                overlay_concurrent = [2, 3, 0, 3],
                                overlay_max = 3\<rparr>,
                  title_total = 3, title_max_concurrent = Some 3\<rparr>,
      ax2 = \<lparr>bar_nodes = [''A'', ''B'', ''C''], bar_uploads = [2, 1, 0],
             bar_downloads = [1, 1, 1]\<rparr>,
      ax3 = \<lparr>stat_total_transfers = 3, stat_simulation_time = 8 / 1461, stat_total_nodes = 3,
             stat_avg_transfers_per_node = 1, stat_transfers_per_year = 4383 / 8,
             stat_data_loss_events = 0\<rparr>\<rparr>"


section \<open>Properties\<close>

subsection \<open>Transfers per node\<close>

lemma dd_get_incr: "dd_get (dd_incr d k) n = dd_get d n + (if n = k then 1 else 0)"
  by (induction d k rule: dd_incr.induct) (auto simp: dd_get_def)

lemma dd_keys_incr: "set (dd_keys (dd_incr d k)) = insert k (set (dd_keys d))"
  by (induction d k rule: dd_incr.induct) (auto simp: dd_keys_def)

lemma dd_values_incr: "sum_list (map snd (dd_incr d k)) = sum_list (map snd d) + 1"
  by (induction d k rule: dd_incr.induct) auto

lemma count_transfers_get:
  "count_transfers ts (u, d) = (u', d') \<Longrightarrow>
     dd_get u' n = dd_get u n + count_list (map uploader_of ts) n \<and>
     dd_get d' n = dd_get d n + count_list (map downloader_of ts) n"
  by (induction ts "(u, d)" arbitrary: u d rule: count_transfers.induct)
     (auto simp: dd_get_incr uploader_of_def downloader_of_def)

lemma count_transfers_keys:
  "count_transfers ts (u, d) = (u', d') \<Longrightarrow>
     set (dd_keys u') = set (dd_keys u) \<union> set (map uploader_of ts) \<and>
     set (dd_keys d') = set (dd_keys d) \<union> set (map downloader_of ts)"
  by (induction ts "(u, d)" arbitrary: u d rule: count_transfers.induct)
     (auto simp: dd_keys_incr uploader_of_def downloader_of_def)

lemma count_transfers_values:
  "count_transfers ts (u, d) = (u', d') \<Longrightarrow>
     sum_list (map snd u') = sum_list (map snd u) + length ts \<and>
     sum_list (map snd d') = sum_list (map snd d) + length ts"
  by (induction ts "(u, d)" arbitrary: u d rule: count_transfers.induct)
     (auto simp: dd_values_incr)

lemma analyze_get:
  assumes "analyze_transfers_by_node data = (u, d)"
  shows "dd_get u n = count_list (map uploader_of (transfer_completions (metrics data))) n"
    and "dd_get d n = count_list (map downloader_of (transfer_completions (metrics data))) n"
  using count_transfers_get [OF assms [unfolded analyze_transfers_by_node_def], of n]
  by (simp_all add: dd_get_def)

lemma analyze_keys:
  assumes "analyze_transfers_by_node data = (u, d)"
  shows "set (dd_keys u) = set (map uploader_of (transfer_completions (metrics data)))"
    and "set (dd_keys d) = set (map downloader_of (transfer_completions (metrics data)))"
  using count_transfers_keys [OF assms [unfolded analyze_transfers_by_node_def]]
  by (simp_all add: dd_keys_def)

lemma transfers_per_node_char:
  assumes "transfers_per_node data = (nodes, uploads, downloads)"
    and "ts = transfer_completions (metrics data)"
  shows "sorted nodes" "distinct nodes"
    "set nodes = set (map uploader_of ts) \<union> set (map downloader_of ts)"
    "uploads = map (count_list (map uploader_of ts)) nodes"
    "downloads = map (count_list (map downloader_of ts)) nodes"
proof -
  obtain u d where ud: "analyze_transfers_by_node data = (u, d)"
    by (cases "analyze_transfers_by_node data")
  from assms(1) ud have n: "nodes = sorted_set (dd_keys u @ dd_keys d)"
    and up: "uploads = map (dd_get u) nodes" and down: "downloads = map (dd_get d) nodes"
    by (auto simp: transfers_per_node_def Let_def)
  show "sorted nodes" "distinct nodes" by (simp_all add: n sorted_set_def)
  show "set nodes = set (map uploader_of ts) \<union> set (map downloader_of ts)"
    using analyze_keys [OF ud] by (simp add: n sorted_set_def assms(2))
  show "uploads = map (count_list (map uploader_of ts)) nodes"
    using analyze_get(1) [OF ud] by (simp add: up assms(2))
  show "downloads = map (count_list (map downloader_of ts)) nodes"
    using analyze_get(2) [OF ud] by (simp add: down assms(2))
qed

lemma sorted_set_abc:
  "sorted_set [''A'', ''B'', ''B'', ''A'', ''C''] = [''A'', ''B'', ''C'']"
  by code_simp

lemma per_node_example:
  assumes "transfer_completions (metrics data) =
     [(t0, ''x'', d0, ''A'', ''B''), (t1, ''x'', d1, ''B'', ''A''), (t2, ''x'', d2, ''A'', ''C'')]"
  shows "analyze_transfers_by_node data =
           ([(''A'', 2), (''B'', 1)], [(''B'', 1), (''A'', 1), (''C'', 1)])"
    and "transfers_per_node data = ([''A'', ''B'', ''C''], [2, 1, 0], [1, 1, 1])"
proof -
  show a: "analyze_transfers_by_node data =
           ([(''A'', 2), (''B'', 1)], [(''B'', 1), (''A'', 1), (''C'', 1)])"
    by (simp add: analyze_transfers_by_node_def assms)
  show "transfers_per_node data = ([''A'', ''B'', ''C''], [2, 1, 0], [1, 1, 1])"
    by (simp add: transfers_per_node_def a dd_keys_def sorted_set_abc dd_get_def)
qed

text \<open>
  Claim C1. The node list of panel 2 is the sorted, duplicate-free list of the ids that
  occur as uploader or downloader (strings in lexicographic order); the upload and
  download series are aligned with it, each entry being the number of transfers with that
  node as uploader, respectively downloader, so an id never seen in that role counts
  zero. For the three transfers A to B, B to A, A to C the upload counts are A:2, B:1,
  the download counts B:1, A:1, C:1, and the node list is A, B, C. The counts come from
  the single pass \<open>count_transfers\<close> over the transfer list.
\<close>

theorem per_node_aggregation:
  assumes "transfers_per_node data = (nodes, uploads, downloads)"
    and "ts = transfer_completions (metrics data)"
  shows "sorted nodes \<and> distinct nodes
    \<and> set nodes = set (map uploader_of ts) \<union> set (map downloader_of ts)
    \<and> uploads = map (count_list (map uploader_of ts)) nodes
    \<and> downloads = map (count_list (map downloader_of ts)) nodes
    \<and> (ts = [(t0, ''x'', d0, ''A'', ''B''), (t1, ''x'', d1, ''B'', ''A''),
              (t2, ''x'', d2, ''A'', ''C'')] \<longrightarrow>
         analyze_transfers_by_node data =
           ([(''A'', 2), (''B'', 1)], [(''B'', 1), (''A'', 1), (''C'', 1)])
         \<and> nodes = [''A'', ''B'', ''C''] \<and> uploads = [2, 1, 0] \<and> downloads = [1, 1, 1])"
proof -
  note c = transfers_per_node_char [OF assms]
  have "analyze_transfers_by_node data =
           ([(''A'', 2), (''B'', 1)], [(''B'', 1), (''A'', 1), (''C'', 1)])
         \<and> nodes = [''A'', ''B'', ''C''] \<and> uploads = [2, 1, 0] \<and> downloads = [1, 1, 1]"
    if "ts = [(t0, ''x'', d0, ''A'', ''B''), (t1, ''x'', d1, ''B'', ''A''),
              (t2, ''x'', d2, ''A'', ''C'')]"
    using per_node_example [of data t0 d0 t1 d1 t2 d2] that assms by simp
  with c show ?thesis by blast
qed

theorem per_node_aggregation_witness:
  "transfers_per_node abc_record = ([''A'', ''B'', ''C''], [2, 1, 0], [1, 1, 1])
   \<and> analyze_transfers_by_node abc_record =
           ([(''A'', 2), (''B'', 1)], [(''B'', 1), (''A'', 1), (''C'', 1)])
   \<and> sorted [''A'', ''B'', ''C''] \<and> distinct [''A'', ''B'', ''C'']"
proof -
  have ts: "transfer_completions (metrics abc_record) =
     [(0, ''x'', 5, ''A'', ''B''), (43200, ''x'', 6, ''B'', ''A''), (86400, ''x'', 7, ''A'', ''C'')]"
    by (simp add: abc_record_def)
  have t: "transfers_per_node abc_record = ([''A'', ''B'', ''C''], [2, 1, 0], [1, 1, 1])"
    by (rule per_node_example(2) [OF ts])
  from per_node_aggregation [OF t ts [symmetric], of 0 5 43200 6 86400 7] t
  show ?thesis by simp
qed

text \<open>
  Claim C10. The upload counts sum to the number of transfer completions, and so do the
  download counts: both as values of the two dictionaries and as the two series of
  panel 2.
\<close>

theorem counts_sum_to_transfers:
  assumes "analyze_transfers_by_node data = (upload_counts, download_counts)"
    and "transfers_per_node data = (nodes, uploads, downloads)"
  shows "sum_list (map snd upload_counts) = length (transfer_completions (metrics data))
    \<and> sum_list (map snd download_counts) = length (transfer_completions (metrics data))
    \<and> sum_list uploads = length (transfer_completions (metrics data))
    \<and> sum_list downloads = length (transfer_completions (metrics data))"
proof -
  let ?ts = "transfer_completions (metrics data)"
  note c = transfers_per_node_char [OF assms(2) refl]
  have v: "sum_list (map snd upload_counts) = length ?ts"
     "sum_list (map snd download_counts) = length ?ts"
    using count_transfers_values [OF assms(1) [unfolded analyze_transfers_by_node_def]]
    by simp_all
  have "sum_list uploads = sum (count_list (map uploader_of ?ts)) (set nodes)"
    using c(2) by (simp add: c(4) sum_list_distinct_conv_sum_set)
  also have "\<dots> = length (map uploader_of ?ts)"
    by (rule sum_count_set) (simp_all add: c(3))
  finally have u: "sum_list uploads = length ?ts" by simp
  have "sum_list downloads = sum (count_list (map downloader_of ?ts)) (set nodes)"
    using c(2) by (simp add: c(5) sum_list_distinct_conv_sum_set)
  also have "\<dots> = length (map downloader_of ?ts)"
    by (rule sum_count_set) (simp_all add: c(3))
  finally have d: "sum_list downloads = length ?ts" by simp
  from v u d show ?thesis by simp
qed

theorem counts_sum_to_transfers_witness:
  "sum_list (map snd [(''A'', 2), (''B'', 1 :: nat)]) = length (transfer_completions (metrics abc_record))
   \<and> sum_list (map snd [(''B'', 1), (''A'', 1), (''C'', 1 :: nat)]) = length (transfer_completions (metrics abc_record))
   \<and> sum_list [2, 1, 0 :: nat] = length (transfer_completions (metrics abc_record))
   \<and> sum_list [1, 1, 1 :: nat] = length (transfer_completions (metrics abc_record))"
proof -
  have ts: "transfer_completions (metrics abc_record) =
     [(0, ''x'', 5, ''A'', ''B''), (43200, ''x'', 6, ''B'', ''A''), (86400, ''x'', 7, ''A'', ''C'')]"
    by (simp add: abc_record_def)
  show ?thesis
    by (rule counts_sum_to_transfers [OF per_node_example(1) [OF ts] per_node_example(2) [OF ts]])
qed

subsection \<open>Loader and script\<close>

lemma bind_err_Inr [simp]: "bind_err (Inr x) f = f x"
  by (simp add: bind_err_def)

lemma bind_err_Inl [simp]: "bind_err (Inl e) f = Inl e"
  by (simp add: bind_err_def)

lemma bind_err_eq_Inl:
  "bind_err m f = Inl e \<longleftrightarrow> m = Inl e \<or> (\<exists>x. m = Inr x \<and> f x = Inl e)"
  by (cases m) simp_all

lemma bind_err_eq_Inr:
  "bind_err m f = Inr y \<longleftrightarrow> (\<exists>x. m = Inr x \<and> f x = Inr y)"
  by (cases m) simp_all

lemma item_error: "item series i = Inl e \<Longrightarrow> e = KeyError \<or> e = IndexError"
  by (auto simp: item_def split: option.splits if_splits)

lemma read_metadata_error: "read_metadata data = Inl e \<Longrightarrow> e = KeyError \<or> e = IndexError"
  unfolding read_metadata_def bind_err_eq_Inl
  by (auto dest: item_error)

lemma transfer_at_error: "transfer_at data i = Inl e \<Longrightarrow> e = KeyError \<or> e = IndexError"
  unfolding transfer_at_def bind_err_eq_Inl
  by (auto dest: item_error)

lemma build_transfers_error:
  "build_transfers data idx = Inl e \<Longrightarrow> e = KeyError \<or> e = IndexError"
proof (induction idx)
  case Nil
  then show ?case by simp
next
  case (Cons i rest)
  then show ?case
    by (auto simp: bind_err_eq_Inl dest: transfer_at_error)
qed

lemma process_data_error: "process_data data = Inl e \<Longrightarrow> e = KeyError \<or> e = IndexError"
  unfolding process_data_def bind_err_eq_Inl
  by (auto dest: read_metadata_error build_transfers_error split: option.splits)

lemma process_data_found: "process_data data \<noteq> Inl FileNotFoundError"
  using process_data_error [of data FileNotFoundError] by auto

lemma process_abc: "process_data abc_npz = Inr abc_record"
  by (simp add: process_data_def read_metadata_def abc_npz_def abc_record_def item_def
      transfer_at_def upt_rec)

text \<open>
  Claim C2, as amended. The loader tests for \<^verbatim>\<open>transfer_times\<close> only. When that series
  is absent, or present and empty, and the required metadata can be read, the loader
  returns a record with an empty \<open>transfer_completions\<close>, whether or not the other four
  transfer series are present.
\<close>

theorem absent_transfer_times:
  assumes "transfer_times data = None \<or> transfer_times data = Some []"
    and "read_metadata data = Inr md"
  shows "process_data data =
     Inr \<lparr>metadata = md,
          metrics = \<lparr>transfer_completions = [],
                     bandwidth_snapshots = ''use_raw_data'',
                     simultaneous_transfers = ''use_raw_data''\<rparr>,
          raw_data = data\<rparr>"
  using assms by (auto simp: process_data_def)

theorem absent_transfer_times_witness:
  "process_data (abc_npz\<lparr>transfer_times := None, uploaders := None\<rparr>) =
     Inr \<lparr>metadata = metadata abc_record,
          metrics = \<lparr>transfer_completions = [],
                     bandwidth_snapshots = ''use_raw_data'',
                     simultaneous_transfers = ''use_raw_data''\<rparr>,
          raw_data = abc_npz\<lparr>transfer_times := None, uploaders := None\<rparr>\<rparr>"
proof -
  have "read_metadata (abc_npz\<lparr>transfer_times := None, uploaders := None\<rparr>) =
      Inr (metadata abc_record)"
    by (simp add: read_metadata_def abc_npz_def abc_record_def item_def)
  then show ?thesis
    by (intro absent_transfer_times) simp_all
qed

text \<open>
  Claim C2 as stated fails: with \<^verbatim>\<open>transfer_types\<close> the single absent series and three
  transfer times stored, the loader raises \<^verbatim>\<open>KeyError\<close> in the first iteration.
\<close>

theorem absent_transfer_types_counterexample:
  "process_data (abc_npz\<lparr>transfer_types := None\<rparr>) = Inl KeyError"
  by (simp add: process_data_def read_metadata_def abc_npz_def item_def
      transfer_at_def upt_rec)

text \<open>
  Claim C7. When no file has the name as given (\<^verbatim>\<open>np.load\<close> raises
  \<^verbatim>\<open>FileNotFoundError\<close>), the name does not end with \<^verbatim>\<open>.npz\<close>, and the file with the
  extension appended exists, loading the bare name gives what loading the name with the
  extension gives: nothing is logged and the result is that of \<open>process_data\<close> on the
  stored container, so it succeeds with the same record whenever the container can be
  processed.
\<close>

theorem extension_inference:
  assumes "fs filename = Inl FileNotFoundError"
    and "\<not> endswith filename ''.npz''"
    and "fs (filename @ ''.npz'') = Inr data"
  shows "load_metrics fs filename = load_metrics fs (filename @ ''.npz'')
    \<and> load_metrics fs filename = ([], process_data data)
    \<and> (\<forall>r. process_data data = Inr r \<longrightarrow> load_metrics fs filename = ([], Inr r))"
  using assms process_data_found [of data]
  by (simp add: load_metrics_def np_load_def Let_def)

lemma not_endswith_run: "\<not> endswith ''run'' ''.npz''"
  by (simp add: endswith_def)

theorem extension_inference_witness:
  "load_metrics run_fs ''run'' = load_metrics run_fs ''run.npz''
    \<and> load_metrics run_fs ''run'' = ([], Inr abc_record)"
proof -
  have a: "run_fs ''run'' = Inl FileNotFoundError" by (simp add: run_fs_def)
  have b: "run_fs (''run'' @ ''.npz'') = Inr abc_npz" by (simp add: run_fs_def)
  have c: "''run'' @ ''.npz'' = ''run.npz''" by simp
  from extension_inference [OF a not_endswith_run b] process_abc
  show ?thesis unfolding c by metis
qed

lemma load_metrics_missing:
  assumes "fs filename = Inl FileNotFoundError"
    and "fs (filename @ ''.npz'') = Inl FileNotFoundError"
  shows "load_metrics fs filename =
     ([Error_data_file_not_found
         (if endswith filename ''.npz'' then filename else filename @ ''.npz'')],
      Inl (SystemExit 1))"
  using assms by (simp add: load_metrics_def np_load_def Let_def)

text \<open>
  An absent path that cannot be opened for another reason is not a file-not-found
  condition for the script: the error passes \<open>load_metrics\<close> and the last handler of
  \<open>main\<close> reports it as an error during the analysis, on the first attempt and on the
  second alike.
\<close>

lemma other_load_error_reported:
  assumes "filename \<noteq> []" and "e = NotADirectoryError \<or> e = OSError"
    and "fs filename = Inl e
      \<or> (fs filename = Inl FileNotFoundError \<and> \<not> endswith filename ''.npz''
          \<and> fs (filename @ ''.npz'') = Inl e)"
  shows "main fs filename plot_name =
     \<lparr>exit_status = 1,
      logged = [Info_banner, Info_rule, Error_during_analysis e],
      saved = None\<rparr>"
proof -
  from assms(2,3) have "load_metrics fs filename = ([], Inl e)"
    by (auto simp: load_metrics_def np_load_def Let_def)
  with assms(1,2) show ?thesis
    by (auto simp: main_def on_exception_def)
qed

text \<open>
  Claim C8, as amended. For a non-empty file name such that \<^verbatim>\<open>np.load\<close> raises
  \<^verbatim>\<open>FileNotFoundError\<close> for the name as given and for the name with \<^verbatim>\<open>.npz\<close> appended,
  the script logs that the data file was not found, exits with status 1 and writes no
  image.
\<close>

theorem missing_file_exits:
  assumes "filename \<noteq> []"
    and "fs filename = Inl FileNotFoundError"
    and "fs (filename @ ''.npz'') = Inl FileNotFoundError"
  shows "main fs filename plot_name =
     \<lparr>exit_status = 1,
      logged = [Info_banner, Info_rule,
                Error_data_file_not_found
                  (if endswith filename ''.npz'' then filename else filename @ ''.npz'')],
      saved = None\<rparr>"
  using assms(1) by (simp add: main_def load_metrics_missing [OF assms(2,3)] on_exception_def)

theorem missing_file_exits_witness:
  "main run_fs ''year_run'' ''plot.png'' =
     \<lparr>exit_status = 1,
      logged = [Info_banner, Info_rule, Error_data_file_not_found ''year_run.npz''],
      saved = None\<rparr>"
proof -
  have a: "''year_run'' \<noteq> []" by simp
  have b: "run_fs ''year_run'' = Inl FileNotFoundError" by (simp add: run_fs_def)
  have c: "run_fs (''year_run'' @ ''.npz'') = Inl FileNotFoundError" by (simp add: run_fs_def)
  have d: "\<not> endswith ''year_run'' ''.npz''" by (simp add: endswith_def)
  from missing_file_exits [OF a b c, of "''plot.png''"] d show ?thesis by simp
qed

text \<open>
  Claim C8 as stated fails for the empty file name, in an empty directory: the guard of
  line 302 ends the run with status 1 and the message that the file name is required;
  no file-not-found condition is reported.
\<close>

theorem empty_filename_counterexample:
  "empty_fs [] = Inl FileNotFoundError \<and> empty_fs ([] @ ''.npz'') = Inl FileNotFoundError
   \<and> main empty_fs [] ''plot.png'' =
       \<lparr>exit_status = 1, logged = [Error_filename_required], saved = None\<rparr>"
  by (simp add: main_def empty_fs_def)

subsection \<open>Cumulative series and derived scalars\<close>

lemma process_nodeless: "process_data nodeless_npz = Inr nodeless_record"
  by (simp add: process_data_def read_metadata_def nodeless_npz_def nodeless_record_def
      abc_npz_def abc_record_def item_def transfer_at_def upt_rec)

lemma process_idle: "process_data idle_npz = Inr idle_record"
  by (simp add: process_data_def read_metadata_def idle_npz_def idle_record_def
      abc_npz_def abc_record_def item_def transfer_at_def upt_rec)

lemma cumulative_series_eq:
  "cumulative_series ts = (map (\<lambda>t. fst t / 86400) ts, [1 ..< length ts + 1])"
  by (simp add: cumulative_series_def)

lemma sorted_days:
  "sorted_wrt (<) (map fst ts) \<Longrightarrow> sorted_wrt (<) (map (\<lambda>t. fst t / (86400 :: real)) ts)"
  by (induction ts) (auto simp: divide_strict_right_mono)

lemma draw_panel1_line:
  assumes "draw_panel1 data = Inr p1" and "transfer_completions (metrics data) \<noteq> []"
  shows "\<exists>p. p1 = Some p \<and>
    (line_times p, line_cumulative p) = cumulative_series (transfer_completions (metrics data))"
  using assms
  by (auto simp: draw_panel1_def Let_def bind_err_eq_Inr split: prod.splits)

lemma create_analysis_plot_ax1:
  assumes "create_analysis_plot data filepath = Inr (path, fig)"
  shows "draw_panel1 data = Inr (ax1 fig)"
proof -
  obtain n u d where "transfers_per_node data = (n, u, d)"
    by (cases "transfers_per_node data")
  with assms show ?thesis
    by (auto simp: create_analysis_plot_def Let_def bind_err_eq_Inr)
qed

text \<open>
  Claim C3. The cumulative line of panel 1 pairs the completion times in days
  (seconds / 86400) with the running count 1 to N, in the stored order: point \<open>i\<close> is the
  time of the \<open>i\<close>-th stored transfer with count \<open>i + 1\<close>. Nothing is sorted, so strictly
  ascending times stay strictly ascending. The series depends on the times only, not on
  type, duration, uploader or downloader. It is the line of panel 1 whenever the panel
  is drawn, in \<open>draw_panel1\<close> and in the figure saved by \<open>create_analysis_plot\<close>; for an
  empty transfer list nothing is drawn.
\<close>

theorem cumulative_series_in_stored_order:
  assumes "ts = transfer_completions (metrics data)"
  shows "cumulative_series ts = (map (\<lambda>t. fst t / 86400) ts, [1 ..< length ts + 1])
    \<and> (\<forall>i < length ts. zip (fst (cumulative_series ts)) (snd (cumulative_series ts)) ! i =
          (fst (ts ! i) / 86400, i + 1))
    \<and> (sorted_wrt (<) (map fst ts) \<longrightarrow> sorted_wrt (<) (fst (cumulative_series ts)))
    \<and> (\<forall>ts'. map fst ts' = map fst ts \<longrightarrow> cumulative_series ts' = cumulative_series ts)
    \<and> (ts = [] \<longrightarrow> draw_panel1 data = Inr None)
    \<and> (ts \<noteq> [] \<and> draw_panel1 data = Inr p1 \<longrightarrow>
          (\<exists>p. p1 = Some p \<and> (line_times p, line_cumulative p) = cumulative_series ts))
    \<and> (ts \<noteq> [] \<and> create_analysis_plot data filepath = Inr (path, fig) \<longrightarrow>
          (\<exists>p. ax1 fig = Some p \<and> (line_times p, line_cumulative p) = cumulative_series ts))"
proof -
  have 1: "cumulative_series ts = (map (\<lambda>t. fst t / 86400) ts, [1 ..< length ts + 1])"
    by (rule cumulative_series_eq)
  have 2: "\<forall>i < length ts. zip (fst (cumulative_series ts)) (snd (cumulative_series ts)) ! i =
          (fst (ts ! i) / 86400, i + 1)"
    by (simp add: 1 nth_upt del: upt_Suc)
  have 3: "sorted_wrt (<) (map fst ts) \<longrightarrow> sorted_wrt (<) (fst (cumulative_series ts))"
    by (simp add: 1 sorted_days)
  have 4: "\<forall>ts'. map fst ts' = map fst ts \<longrightarrow> cumulative_series ts' = cumulative_series ts"
  proof (intro allI impI)
    fix ts' :: "transfer list"
    assume e: "map fst ts' = map fst ts"
    have "map (\<lambda>t. fst t / 86400) ts' = map (\<lambda>x. x / 86400) (map fst ts')"
      by simp
    also have "\<dots> = map (\<lambda>t. fst t / 86400) ts"
      unfolding e by simp
    finally have "map (\<lambda>t. fst t / 86400) ts' = map (\<lambda>t. fst t / 86400) ts" .
    moreover from e have "length ts' = length ts"
      by (metis length_map)
    ultimately show "cumulative_series ts' = cumulative_series ts"
      by (simp add: cumulative_series_eq)
  qed
  have 5: "ts = [] \<longrightarrow> draw_panel1 data = Inr None"
    using assms by (simp add: draw_panel1_def)
  have 6: "ts \<noteq> [] \<and> draw_panel1 data = Inr p1 \<longrightarrow>
          (\<exists>p. p1 = Some p \<and> (line_times p, line_cumulative p) = cumulative_series ts)"
    using draw_panel1_line [of data p1] assms by blast
  have 7: "ts \<noteq> [] \<and> create_analysis_plot data filepath = Inr (path, fig) \<longrightarrow>
          (\<exists>p. ax1 fig = Some p \<and> (line_times p, line_cumulative p) = cumulative_series ts)"
    using draw_panel1_line [of data "ax1 fig"] create_analysis_plot_ax1 [of data filepath path fig]
      assms by blast
  from 1 2 3 4 5 6 7 show ?thesis by blast
qed


lemma abc_transfers:
  "transfer_completions (metrics abc_record) =
     [(0, ''x'', 5, ''A'', ''B''), (43200, ''x'', 6, ''B'', ''A''), (86400, ''x'', 7, ''A'', ''C'')]"
  by (simp add: abc_record_def)

lemma abc_panel1:
  "draw_panel1 abc_record =
     Inr (Some \<lparr>line_times = [0, 1 / 2, 1], line_cumulative = [1, 2, 3], twin = None,
                title_total = 3, title_max_concurrent = None\<rparr>)"
proof -
  have "concurrency_overlay (parallel_enabled (metadata abc_record)) (raw_data abc_record) = Inr None"
    by (simp add: concurrency_overlay_def has_concurrency_def abc_record_def)
  moreover have "[1 ..< 4] = [1, 2, 3 :: nat]"
    by (simp add: upt_rec)
  ultimately show ?thesis
    by (simp add: draw_panel1_def abc_transfers cumulative_series_def)
qed

lemma abc_plot: "create_analysis_plot abc_record ''plot.png'' = Inr (''plot.png'', abc_figure)"
proof -
  have a: "avg_transfers_per_node abc_record = Inr 1"
    by (simp add: avg_transfers_per_node_def truediv_def abc_record_def)
  have y: "sim_time_years abc_record = 8 / 1461"
    by (simp add: sim_time_years_def abc_record_def)
  have p: "transfers_per_year abc_record = Inr (4383 / 8)"
    by (simp add: transfers_per_year_def y abc_transfers truediv_def)
  have b: "bandwidth_stats (raw_data abc_record) = Inr (Some 0, Some 0)"
    by (simp add: bandwidth_stats_def abc_record_def abc_npz_def)
  have c: "concurrent_stats False (raw_data abc_record) = Inr None"
    by (simp add: concurrent_stats_def has_concurrency_def)
  have m: "parallel_enabled (metadata abc_record) = False"
     "total_nodes (metadata abc_record) = 3" "data_loss_events (metadata abc_record) = 0"
    by (simp_all add: abc_record_def)
  show ?thesis
    by (simp add: create_analysis_plot_def abc_panel1 per_node_example(2) [OF abc_transfers]
        a y p b c m abc_transfers abc_figure_def)
qed

theorem cumulative_series_in_stored_order_witness:
  "cumulative_series (transfer_completions (metrics abc_record)) = ([0, 1 / 2, 1], [1, 2, 3])
   \<and> sorted_wrt (<) (map fst (transfer_completions (metrics abc_record)))
   \<and> sorted_wrt (<) (fst (cumulative_series (transfer_completions (metrics abc_record))))
   \<and> transfer_completions (metrics abc_record) \<noteq> []
   \<and> create_analysis_plot abc_record ''plot.png'' = Inr (''plot.png'', abc_figure)
   \<and> (\<exists>p. ax1 abc_figure = Some p \<and>
         (line_times p, line_cumulative p) =
            cumulative_series (transfer_completions (metrics abc_record)))"
proof -
  have s: "sorted_wrt (<) (map fst (transfer_completions (metrics abc_record)))"
    by (simp add: abc_transfers)
  have n: "transfer_completions (metrics abc_record) \<noteq> []"
    by (simp add: abc_transfers)
  have u: "[1 ..< 4] = [1, 2, 3 :: nat]"
    by (simp add: upt_rec)
  have c: "cumulative_series (transfer_completions (metrics abc_record)) = ([0, 1 / 2, 1], [1, 2, 3])"
    by (simp add: abc_transfers cumulative_series_def u)
  from cumulative_series_in_stored_order
         [OF refl, of abc_record "ax1 abc_figure" "''plot.png''" "''plot.png''" abc_figure]
       s n abc_plot c
  show ?thesis by blast
qed

lemma sim_time_years_pos: "0 < sim_time_years data \<longleftrightarrow> 0 < simulation_end_time (metadata data)"
  by (simp add: sim_time_years_def)

text \<open>
  Claim C4, as amended. Computing the derived scalars never raises a division error.
  The average transfers per node is the number of transfers divided by \<open>total_nodes\<close>
  when that is positive and 0 otherwise, so it is 0 for \<open>total_nodes = 0\<close>; the transfers
  per year is the number of transfers divided by the years when the simulation end time
  is positive and 0 otherwise, so it is 0 for \<open>simulation_end_time = 0\<close>; the years are
  \<open>simulation_end_time / (365.25 * 24 * 3600)\<close>. Each rate is guarded by its own
  denominator.
\<close>

theorem derived_scalars_guarded:
  assumes "n = length (transfer_completions (metrics data))"
  shows "avg_transfers_per_node data =
      Inr (if 0 < total_nodes (metadata data)
           then real n / real_of_int (total_nodes (metadata data)) else 0)
    \<and> transfers_per_year data =
      Inr (if 0 < simulation_end_time (metadata data) then real n / sim_time_years data else 0)
    \<and> sim_time_years data = simulation_end_time (metadata data) / (365.25 * 24 * 3600)
    \<and> (total_nodes (metadata data) = 0 \<longrightarrow> avg_transfers_per_node data = Inr 0)
    \<and> (simulation_end_time (metadata data) = 0 \<longrightarrow> transfers_per_year data = Inr 0)"
proof -
  have a: "avg_transfers_per_node data =
      Inr (if 0 < total_nodes (metadata data)
           then real n / real_of_int (total_nodes (metadata data)) else 0)"
    by (simp add: avg_transfers_per_node_def truediv_def assms)
  have p: "transfers_per_year data =
      Inr (if 0 < simulation_end_time (metadata data) then real n / sim_time_years data else 0)"
    using sim_time_years_pos [of data]
    by (auto simp: transfers_per_year_def truediv_def assms)
  have y: "sim_time_years data = simulation_end_time (metadata data) / (365.25 * 24 * 3600)"
    by (simp add: sim_time_years_def)
  from a p y show ?thesis by simp
qed

theorem derived_scalars_guarded_witness:
  "total_nodes (metadata idle_record) = 0 \<and> simulation_end_time (metadata idle_record) = 0
   \<and> length (transfer_completions (metrics idle_record)) = 3
   \<and> avg_transfers_per_node idle_record = Inr 0 \<and> transfers_per_year idle_record = Inr 0
   \<and> avg_transfers_per_node abc_record = Inr (3 / 3)
   \<and> transfers_per_year abc_record = Inr (3 / sim_time_years abc_record)"
proof -
  have i: "total_nodes (metadata idle_record) = 0" "simulation_end_time (metadata idle_record) = 0"
    "length (transfer_completions (metrics idle_record)) = 3"
    by (simp_all add: idle_record_def abc_record_def)
  have a: "total_nodes (metadata abc_record) = 3" "simulation_end_time (metadata abc_record) = 172800"
    "length (transfer_completions (metrics abc_record)) = 3"
    by (simp_all add: abc_record_def)
  from derived_scalars_guarded [of 3 idle_record] derived_scalars_guarded [of 3 abc_record] i a
  show ?thesis by simp
qed

text \<open>
  Claim C4 as stated fails when only one denominator is zero: with no node, three
  transfers and a simulated time of one year, the average per node is 0 but the
  transfers per year is 3.
\<close>

theorem derived_scalars_counterexample:
  "process_data nodeless_npz = Inr nodeless_record
   \<and> total_nodes (metadata nodeless_record) = 0
   \<and> avg_transfers_per_node nodeless_record = Inr 0
   \<and> transfers_per_year nodeless_record = Inr 3"
proof -
  have "sim_time_years nodeless_record = 1"
    by (simp add: sim_time_years_def nodeless_record_def)
  then show ?thesis
    by (simp add: process_nodeless transfers_per_year_def avg_transfers_per_node_def truediv_def)
       (simp add: nodeless_record_def abc_record_def)
qed

subsection \<open>Down-sampling\<close>

lemma process_par: "process_data par_npz = Inr par_record"
  by (simp add: process_data_def read_metadata_def par_npz_def par_record_def
      abc_npz_def abc_record_def item_def transfer_at_def upt_rec)

lemma ceil_div:
  fixes n k :: nat
  assumes "0 < k"
  shows "(n + k - 1) div k = (if k dvd n then n div k else Suc (n div k))"
proof (cases "k dvd n")
  case True
  then obtain q where q: "n = k * q" ..
  have "(k * q + k - 1) div k = q"
    using assms by (intro div_nat_eqI) simp_all
  with True q assms show ?thesis by simp
next
  case False
  then have r: "0 < n mod k" by (simp add: dvd_eq_mod_eq_0)
  have d: "k * (n div k) + n mod k = n" by simp
  have e: "k * Suc (n div k) = k * (n div k) + k" by simp
  have f: "k * Suc (Suc (n div k)) = k * (n div k) + k + k" by simp
  have m: "n mod k < k" using assms by simp
  have "(n + k - 1) div k = Suc (n div k)"
  proof (intro div_nat_eqI)
    show "k * Suc (n div k) \<le> n + k - 1"
      unfolding e using d r by linarith
    show "n + k - 1 < k * Suc (Suc (n div k))"
      unfolding f using d m by linarith
  qed
  with False show ?thesis by simp
qed

lemma multiples_below:
  assumes "0 < k"
  shows "filter (\<lambda>i. k dvd i) [0 ..< n] = map (\<lambda>i. i * k) [0 ..< (n + k - 1) div k]"
proof (induction n)
  case 0
  from assms show ?case by simp
next
  case (Suc n)
  have s: "(Suc n + k - 1) div k = Suc (n div k)"
    using assms by simp
  have "filter (\<lambda>i. k dvd i) [0 ..< Suc n] =
      filter (\<lambda>i. k dvd i) [0 ..< n] @ (if k dvd n then [n] else [])"
    by simp
  also have "\<dots> = map (\<lambda>i. i * k) [0 ..< (n + k - 1) div k] @ (if k dvd n then [n] else [])"
    by (simp only: Suc.IH)
  also have "\<dots> = map (\<lambda>i. i * k) [0 ..< Suc (n div k)]"
  proof (cases "k dvd n")
    case True
    then have "(n + k - 1) div k = n div k" and "n div k * k = n"
      using ceil_div [OF assms, of n] by simp_all
    with True show ?thesis by simp
  next
    case False
    then have "(n + k - 1) div k = Suc (n div k)"
      using ceil_div [OF assms, of n] by simp
    with False show ?thesis by (simp del: upt_Suc)
  qed
  finally show ?case by (simp only: s)
qed

lemma slice_step_every_kth: "0 < k \<Longrightarrow> slice_step xs k = Inr (every_kth k xs)"
  by (simp add: slice_step_def every_kth_def multiples_below comp_def)

lemma length_every_kth: "0 < k \<Longrightarrow> length (every_kth k xs) = (length xs + k - 1) div k"
  by (simp add: every_kth_def multiples_below)

lemma nth_every_kth:
  "0 < k \<Longrightarrow> i < length (every_kth k xs) \<Longrightarrow> every_kth k xs ! i = xs ! (i * k)"
  by (simp add: every_kth_def multiples_below)

lemma every_kth_Nil_iff: "0 < k \<Longrightarrow> every_kth k xs = [] \<longleftrightarrow> xs = []"
  using length_every_kth [of k xs] ceil_div [of k "length xs"]
  by (cases xs) (auto split: if_splits)

lemma sample_step_pos: "0 < sample_step_of len target"
  by (simp add: sample_step_of_def)

lemma sampled_every_kth:
  "0 < k \<Longrightarrow> sampled (Some xs) k = Inr (every_kth k xs)"
  by (simp add: sampled_def series_of_def slice_step_every_kth)

lemma concurrent_total_every_kth:
  assumes "0 < k" and "sim_uploads raw = Some su" and "sim_downloads raw = Some sd"
    and "length su = length sd"
  shows "concurrent_total raw k = Inr (map2 (+) (every_kth k su) (every_kth k sd))"
  using assms
  by (simp add: concurrent_total_def sampled_every_kth broadcast2_def length_every_kth)

lemma np_max_Max: "xs \<noteq> [] \<Longrightarrow> np_max xs = Inr (Max (set (map sint xs)))"
proof (cases xs)
  case Nil
  then show "xs \<noteq> [] \<Longrightarrow> ?thesis" by simp
next
  case (Cons x rest)
  have "fold max (map sint rest) (sint x) = Max (set (sint x # map sint rest))"
    by (rule Max.set_eq_fold [symmetric])
  with Cons show ?thesis
    by (simp add: np_max_def)
qed

lemma every_kth_1: "every_kth (Suc 0) xs = xs"
  by (simp add: every_kth_def map_nth)

lemma has_concurrency_iff:
  "has_concurrency is_parallel raw \<longleftrightarrow> is_parallel \<and> (\<exists>st. sim_times raw = Some st \<and> st \<noteq> [])"
  by (auto simp: has_concurrency_def split: option.splits)

lemma concurrency_overlay_eq:
  assumes "has_concurrency is_parallel raw" and "sim_times raw = Some st"
    and "sim_uploads raw = Some su" and "sim_downloads raw = Some sd"
    and "length su = length st" and "length sd = length st"
    and "k = sample_step_of (length st) 2000"
    and "cd = map2 (+) (every_kth k su) (every_kth k sd)"
  shows "concurrency_overlay is_parallel raw =
     Inr (Some \<lparr>overlay_times = map (\<lambda>x. x / 86400) (every_kth k st),
                overlay_concurrent = map sint cd,
                overlay_max = (if cd = [] then 0 else Max (set (map sint cd)))\<rparr>)"
proof -
  have k: "0 < k" by (simp add: assms(7) sample_step_pos)
  have e: "length su = length sd" by (simp add: assms(5,6))
  have t: "concurrent_total raw k = Inr cd"
    unfolding assms(8) by (rule concurrent_total_every_kth [OF k assms(3,4) e])
  have l: "length cd = length (every_kth k st)"
    by (simp add: assms(8) length_every_kth [OF k] assms(5,6))
  have p: "plot_line (map (\<lambda>x. x / 86400) (every_kth k st)) cd = Inr ()"
    by (simp add: plot_line_def l)
  show ?thesis
    using assms(1)
    by (auto simp: concurrency_overlay_def assms(2) series_of_def Let_def
        assms(7) [symmetric] sampled_every_kth [OF k] t p np_max_Max)
qed

lemma concurrent_stats_eq:
  assumes "has_concurrency is_parallel raw" and "sim_times raw = Some st"
    and "sim_uploads raw = Some su" and "sim_downloads raw = Some sd"
    and "length su = length sd"
    and "k = sample_step_of (length st) 1000"
    and "cd = map2 (+) (every_kth k su) (every_kth k sd)"
  shows "concurrent_stats is_parallel raw =
     Inr (Some (if cd = [] then 0 else Max (set (map sint cd)),
                if cd = [] then Some 0
                else Some (mean (map (\<lambda>c. real_of_int (sint c)) cd))))"
proof -
  have k: "0 < k" by (simp add: assms(6) sample_step_pos)
  have t: "concurrent_total raw k = Inr cd"
    unfolding assms(7) by (rule concurrent_total_every_kth [OF k assms(3,4,5)])
  show ?thesis
    using assms(1)
    by (auto simp: concurrent_stats_def assms(2) series_of_def Let_def
        assms(6) [symmetric] t np_max_Max np_mean_def mean_def)
qed

text \<open>
  The sums are sums of 64-bit words: one upload too many at the largest \<^verbatim>\<open>int64\<close> gives
  the smallest. And the overlay is not drawn for concurrency series shorter than
  \<^verbatim>\<open>sim_times\<close>: the plot raises \<^verbatim>\<open>ValueError\<close>.
\<close>

lemma concurrent_total_wraps:
  "concurrent_total
     (par_npz\<lparr>sim_uploads := Some [9223372036854775807], sim_downloads := Some [1]\<rparr>) 1 =
   Inr [- 9223372036854775808]"
  by (simp add: concurrent_total_def sampled_def series_of_def slice_step_def broadcast2_def)

lemma misaligned_overlay_raises:
  "concurrency_overlay True
     (par_npz\<lparr>sim_uploads := Some [1, 2, 0], sim_downloads := Some [1, 1, 0]\<rparr>) =
   Inl ValueError"
proof -
  have "sim_times (par_npz\<lparr>sim_uploads := Some [1, 2, 0], sim_downloads := Some [1, 1, 0]\<rparr>) =
      Some [0, 43200, 86400, 129600]"
    by (simp add: par_npz_def)
  moreover have "sample_step_of (Suc (Suc (Suc (Suc 0)))) 2000 = Suc 0"
    by (simp add: sample_step_of_def)
  ultimately show ?thesis
    by (simp add: concurrency_overlay_def has_concurrency_def series_of_def Let_def
        sampled_every_kth concurrent_total_def every_kth_1 broadcast2_def plot_line_def)
qed

lemma bandwidth_window_eq:
  assumes "bw_times raw = Some bt"
    and "bw_upload_used raw = Some uu" and "bw_upload_capacity raw = Some uc"
    and "bw_download_used raw = Some du" and "bw_download_capacity raw = Some dc"
    and "k = sample_step_of (length bt) 1000"
  shows "bandwidth_window raw =
     Inr (every_kth k uu, every_kth k uc, every_kth k du, every_kth k dc)"
proof -
  have k: "0 < k" by (simp add: assms(6) sample_step_pos)
  show ?thesis
    by (simp add: bandwidth_window_def assms(1-5) series_of_def Let_def
        assms(6) [symmetric] sampled_every_kth [OF k])
qed

text \<open>
  Claim C5. The stride for a series of length \<open>L\<close> and target \<open>T\<close> is \<open>max 1 (L div T)\<close>, at
  least 1, and slicing with it keeps exactly the samples whose index is a multiple of the
  stride: \<open>\<lceil>L / k\<rceil>\<close> samples, the \<open>i\<close>-th being sample \<open>i * k\<close> of the series. The result is
  a function of the series and the target alone. For concurrency series aligned with
  \<^verbatim>\<open>sim_times\<close> by index, the concurrency overlay slices \<^verbatim>\<open>sim_times\<close>, \<^verbatim>\<open>sim_uploads\<close>
  and \<^verbatim>\<open>sim_downloads\<close> with target 2000 and the concurrency statistics slice the latter
  two with target 1000, the concurrent count being the sum of the two slices as 64-bit
  words. The bandwidth window slices the four bandwidth series with target 1000. The
  stride is computed from the length of \<^verbatim>\<open>sim_times\<close>, respectively \<^verbatim>\<open>bw_times\<close>.
\<close>

theorem downsampling_stride:
  assumes "k = sample_step_of (length xs) target"
    and "k2000 = sample_step_of (length st) 2000"
    and "k1000 = sample_step_of (length st) 1000"
    and "kbw = sample_step_of (length bt) 1000"
  shows "k = max 1 (length xs div target) \<and> 0 < k
    \<and> sampled (Some xs) k = Inr (every_kth k xs)
    \<and> length (every_kth k xs) = (length xs + k - 1) div k
    \<and> (\<forall>i < length (every_kth k xs). every_kth k xs ! i = xs ! (i * k))
    \<and> (has_concurrency is_parallel raw \<and> sim_times raw = Some st
         \<and> sim_uploads raw = Some su \<and> sim_downloads raw = Some sd
         \<and> length su = length st \<and> length sd = length st
       \<longrightarrow>
         concurrency_overlay is_parallel raw =
           Inr (Some \<lparr>overlay_times = map (\<lambda>x. x / 86400) (every_kth k2000 st),
                      overlay_concurrent =
                        map sint (map2 (+) (every_kth k2000 su) (every_kth k2000 sd)),
                      overlay_max =
                        (if map2 (+) (every_kth k2000 su) (every_kth k2000 sd) = [] then 0
                         else Max (set (map sint
                                (map2 (+) (every_kth k2000 su) (every_kth k2000 sd)))))\<rparr>)
         \<and> concurrent_stats is_parallel raw =
           Inr (Some (if map2 (+) (every_kth k1000 su) (every_kth k1000 sd) = [] then 0
                      else Max (set (map sint
                             (map2 (+) (every_kth k1000 su) (every_kth k1000 sd)))),
                      if map2 (+) (every_kth k1000 su) (every_kth k1000 sd) = [] then Some 0
                      else Some (mean (map (\<lambda>c. real_of_int (sint c))
                             (map2 (+) (every_kth k1000 su) (every_kth k1000 sd)))))))
    \<and> (bw_times raw = Some bt
         \<and> bw_upload_used raw = Some uu \<and> bw_upload_capacity raw = Some uc
         \<and> bw_download_used raw = Some du \<and> bw_download_capacity raw = Some dc
       \<longrightarrow>
         bandwidth_window raw =
           Inr (every_kth kbw uu, every_kth kbw uc, every_kth kbw du, every_kth kbw dc))"
proof -
  have k: "0 < k" by (simp add: assms(1) sample_step_pos)
  have 1: "k = max 1 (length xs div target)"
    by (simp add: assms(1) sample_step_of_def)
  have 2: "sampled (Some xs) k = Inr (every_kth k xs)"
    by (rule sampled_every_kth [OF k])
  have 3: "length (every_kth k xs) = (length xs + k - 1) div k"
    by (rule length_every_kth [OF k])
  have 4: "\<forall>i < length (every_kth k xs). every_kth k xs ! i = xs ! (i * k)"
    using nth_every_kth [OF k] by blast
  have 5: "concurrency_overlay is_parallel raw =
           Inr (Some \<lparr>overlay_times = map (\<lambda>x. x / 86400) (every_kth k2000 st),
                      overlay_concurrent =
                        map sint (map2 (+) (every_kth k2000 su) (every_kth k2000 sd)),
                      overlay_max =
                        (if map2 (+) (every_kth k2000 su) (every_kth k2000 sd) = [] then 0
                         else Max (set (map sint
                                (map2 (+) (every_kth k2000 su) (every_kth k2000 sd)))))\<rparr>)
         \<and> concurrent_stats is_parallel raw =
           Inr (Some (if map2 (+) (every_kth k1000 su) (every_kth k1000 sd) = [] then 0
                      else Max (set (map sint
                             (map2 (+) (every_kth k1000 su) (every_kth k1000 sd)))),
                      if map2 (+) (every_kth k1000 su) (every_kth k1000 sd) = [] then Some 0
                      else Some (mean (map (\<lambda>c. real_of_int (sint c))
                             (map2 (+) (every_kth k1000 su) (every_kth k1000 sd))))))"
    if h: "has_concurrency is_parallel raw" "sim_times raw = Some st"
      "sim_uploads raw = Some su" "sim_downloads raw = Some sd"
      "length su = length st" "length sd = length st"
  proof -
    from h(5,6) have e: "length su = length sd" by simp
    show ?thesis
      using concurrency_overlay_eq [OF h assms(2) refl]
        concurrent_stats_eq [OF h(1-4) e assms(3) refl]
      by (rule conjI)
  qed
  from k 1 2 3 4 5 bandwidth_window_eq [OF _ _ _ _ _ assms(4), of raw uu uc du dc]
  show ?thesis by blast
qed

lemma par_series:
  "sim_times par_npz = Some [0, 43200, 86400, 129600]"
  "sim_uploads par_npz = Some [1, 2, 0, 1]"
  "sim_downloads par_npz = Some [1, 1, 0, 2]"
  "bw_times par_npz = Some [0, 86400]"
  "bw_upload_used par_npz = Some [50, 0]"
  "bw_upload_capacity par_npz = Some [100, 0]"
  "bw_download_used par_npz = Some [30, 10]"
  "bw_download_capacity par_npz = Some [60, 40]"
  by (simp_all add: par_npz_def)

lemma par_has_concurrency: "has_concurrency True par_npz"
  by (simp add: has_concurrency_def par_series)

lemma every_second_of_five: "every_kth 2 [10, 20, 30, 40, 50 :: int] = [10, 30, 50]"
  by code_simp

theorem downsampling_stride_witness:
  "sample_step_of (length [10, 20, 30, 40, 50 :: int]) 2 = 2
   \<and> sampled (Some [10, 20, 30, 40, 50 :: int]) 2 = Inr [10, 30, 50]
   \<and> has_concurrency True par_npz
   \<and> concurrency_overlay True par_npz =
       Inr (Some \<lparr>overlay_times = [0, 1 / 2, 1, 3 / 2], overlay_concurrent = [2, 3, 0, 3],
                  overlay_max = 3\<rparr>)
   \<and> concurrent_stats True par_npz = Inr (Some (3, Some 2))
   \<and> bandwidth_window par_npz = Inr ([50, 0], [100, 0], [30, 10], [60, 40])"
proof -
  have k: "2 = sample_step_of (length [10, 20, 30, 40, 50 :: int]) 2"
    "Suc 0 = sample_step_of (length [0, 43200, 86400, 129600 :: real]) 2000"
    "Suc 0 = sample_step_of (length [0, 43200, 86400, 129600 :: real]) 1000"
    "Suc 0 = sample_step_of (length [0, 86400 :: real]) 1000"
    by (simp_all add: sample_step_of_def)
  from downsampling_stride [OF k, where is_parallel = True and raw = par_npz
      and su = "[1, 2, 0, 1]" and sd = "[1, 1, 0, 2]" and uu = "[50, 0]" and uc = "[100, 0]"
      and du = "[30, 10]" and dc = "[60, 40]"]
    par_has_concurrency par_series k(1)
  show ?thesis
    by (simp add: every_kth_1 every_second_of_five mean_def)
qed

lemma mean_ratio:
  assumes "used \<noteq> []" and "length capacity = length used"
  shows "utilization used capacity =
     Inr (Some (mean (map2 (\<lambda>u c. u / max c 1) used capacity) * 100))"
proof -
  have "map2 (/) used (map (\<lambda>c. max c 1) capacity) = map2 (\<lambda>u c. u / max c 1) used capacity"
    by (simp add: zip_map2 split_beta)
  moreover from assms have "capacity \<noteq> []"
    by auto
  ultimately show ?thesis
    using assms by (simp add: utilization_def broadcast2_def np_mean_def mean_def)
qed

text \<open>
  Claim C6. With \<^verbatim>\<open>bw_times\<close> present and non-empty and the used and capacity series of
  each resource present, non-empty and of equal length, the utilization of the resource
  is \<open>mean (used / max capacity 1) * 100\<close> over the down-sampled window. Every divisor is
  at least 1, whatever the capacity. With \<^verbatim>\<open>bw_times\<close> absent or empty both figures
  are 0.
\<close>

theorem bandwidth_utilization:
  assumes "k = sample_step_of (length bt) 1000"
  shows "(bw_times raw = Some bt \<and> bt \<noteq> []
          \<and> bw_upload_used raw = Some uu \<and> bw_upload_capacity raw = Some uc
          \<and> bw_download_used raw = Some du \<and> bw_download_capacity raw = Some dc
          \<and> uu \<noteq> [] \<and> length uc = length uu \<and> du \<noteq> [] \<and> length dc = length du
        \<longrightarrow>
          bandwidth_window raw =
            Inr (every_kth k uu, every_kth k uc, every_kth k du, every_kth k dc)
          \<and> bandwidth_stats raw =
            Inr (Some (mean (map2 (\<lambda>u c. u / max c 1) (every_kth k uu) (every_kth k uc)) * 100),
                 Some (mean (map2 (\<lambda>u c. u / max c 1) (every_kth k du) (every_kth k dc)) * 100)))
    \<and> (\<forall>c \<in> set (map (\<lambda>c. max c 1) capacity). (1::real) \<le> c)
    \<and> (bw_times raw = None \<or> bw_times raw = Some [] \<longrightarrow>
          bandwidth_stats raw = Inr (Some 0, Some 0))"
proof -
  have k: "0 < k" by (simp add: assms sample_step_pos)
  have a: "bandwidth_window raw =
            Inr (every_kth k uu, every_kth k uc, every_kth k du, every_kth k dc)
     \<and> bandwidth_stats raw =
       Inr (Some (mean (map2 (\<lambda>u c. u / max c 1) (every_kth k uu) (every_kth k uc)) * 100),
            Some (mean (map2 (\<lambda>u c. u / max c 1) (every_kth k du) (every_kth k dc)) * 100))"
    if h: "bw_times raw = Some bt" "bt \<noteq> []"
      "bw_upload_used raw = Some uu" "bw_upload_capacity raw = Some uc"
      "bw_download_used raw = Some du" "bw_download_capacity raw = Some dc"
      "uu \<noteq> []" "length uc = length uu" "du \<noteq> []" "length dc = length du"
  proof -
    have w: "bandwidth_window raw =
        Inr (every_kth k uu, every_kth k uc, every_kth k du, every_kth k dc)"
      by (rule bandwidth_window_eq [OF h(1,3,4,5,6) assms])
    have u: "utilization (every_kth k uu) (every_kth k uc) =
        Inr (Some (mean (map2 (\<lambda>u c. u / max c 1) (every_kth k uu) (every_kth k uc)) * 100))"
      by (rule mean_ratio) (simp_all add: every_kth_Nil_iff [OF k] length_every_kth [OF k] h)
    have d: "utilization (every_kth k du) (every_kth k dc) =
        Inr (Some (mean (map2 (\<lambda>u c. u / max c 1) (every_kth k du) (every_kth k dc)) * 100))"
      by (rule mean_ratio) (simp_all add: every_kth_Nil_iff [OF k] length_every_kth [OF k] h)
    from h(2) show ?thesis
      by (simp add: bandwidth_stats_def h(1) w u d)
  qed
  have b: "\<forall>c \<in> set (map (\<lambda>c. max c 1) capacity). (1::real) \<le> c"
    by simp
  have c: "bw_times raw = None \<or> bw_times raw = Some [] \<longrightarrow>
          bandwidth_stats raw = Inr (Some 0, Some 0)"
    by (auto simp: bandwidth_stats_def)
  from a b c show ?thesis by blast
qed

theorem bandwidth_utilization_witness:
  "bw_times par_npz = Some [0, 86400] \<and> bw_upload_capacity par_npz = Some [100, 0]
   \<and> bandwidth_stats par_npz = Inr (Some 25, Some (75 / 2))
   \<and> bw_times abc_npz = None
   \<and> bandwidth_stats abc_npz = Inr (Some 0, Some 0)"
proof -
  have k: "Suc 0 = sample_step_of (length [0, 86400 :: real]) 1000"
    by (simp add: sample_step_of_def)
  have a: "bw_times abc_npz = None"
    by (simp add: abc_npz_def)
  from bandwidth_utilization [OF k, where raw = par_npz
      and uu = "[50, 0]" and uc = "[100, 0]" and du = "[30, 10]" and dc = "[60, 40]"]
    par_series
  have "bandwidth_stats par_npz = Inr (Some 25, Some (75 / 2))"
    by (simp add: every_kth_1 mean_def)
  moreover from bandwidth_utilization [OF k, where raw = abc_npz] a
  have "bandwidth_stats abc_npz = Inr (Some 0, Some 0)"
    by simp
  ultimately show ?thesis
    using a par_series by simp
qed

subsection \<open>Rendering modes\<close>

lemma entry_points_unified:
  "plot_single_mode_analysis data filepath = create_analysis_plot data filepath"
  "plot_parallel_mode_analysis data filepath = create_analysis_plot data filepath"
  by (simp_all add: plot_single_mode_analysis_def plot_parallel_mode_analysis_def)

lemma create_analysis_plot_panels:
  assumes "create_analysis_plot data filepath = Inr (path, fig)"
  shows "path = filepath"
    and "suptitle fig =
      (if parallel_enabled (metadata data) then ''Parallel'' else ''Single'', sim_time_years data)"
    and "ax2 fig = (case transfers_per_node data of (nodes, uploads, downloads) \<Rightarrow>
      \<lparr>bar_nodes = nodes, bar_uploads = uploads, bar_downloads = downloads\<rparr>)"
    and "\<exists>avg_per_node per_year.
      avg_transfers_per_node data = Inr avg_per_node \<and> transfers_per_year data = Inr per_year \<and>
      ax3 fig = \<lparr>stat_total_transfers = length (transfer_completions (metrics data)),
                 stat_simulation_time = sim_time_years data,
                 stat_total_nodes = total_nodes (metadata data),
                 stat_avg_transfers_per_node = avg_per_node,
                 stat_transfers_per_year = per_year,
                 stat_data_loss_events = data_loss_events (metadata data)\<rparr>"
proof -
  obtain n u d where t: "transfers_per_node data = (n, u, d)"
    by (cases "transfers_per_node data")
  from assms t show "path = filepath"
    by (auto simp: create_analysis_plot_def Let_def bind_err_eq_Inr)
  from assms t show "suptitle fig =
      (if parallel_enabled (metadata data) then ''Parallel'' else ''Single'', sim_time_years data)"
    by (auto simp: create_analysis_plot_def Let_def bind_err_eq_Inr)
  from assms t show "ax2 fig = (case transfers_per_node data of (nodes, uploads, downloads) \<Rightarrow>
      \<lparr>bar_nodes = nodes, bar_uploads = uploads, bar_downloads = downloads\<rparr>)"
    by (auto simp: create_analysis_plot_def Let_def bind_err_eq_Inr)
  from assms t show "\<exists>avg_per_node per_year.
      avg_transfers_per_node data = Inr avg_per_node \<and> transfers_per_year data = Inr per_year \<and>
      ax3 fig = \<lparr>stat_total_transfers = length (transfer_completions (metrics data)),
                 stat_simulation_time = sim_time_years data,
                 stat_total_nodes = total_nodes (metadata data),
                 stat_avg_transfers_per_node = avg_per_node,
                 stat_transfers_per_year = per_year,
                 stat_data_loss_events = data_loss_events (metadata data)\<rparr>"
    by (auto simp: create_analysis_plot_def Let_def bind_err_eq_Inr)
qed

lemma mode_leaves_panels_2_and_3:
  assumes "data' = data\<lparr>metadata := (metadata data)\<lparr>parallel_enabled := b\<rparr>\<rparr>"
    and "create_analysis_plot data filepath = Inr (path, fig)"
    and "create_analysis_plot data' filepath = Inr (path', fig')"
  shows "path' = path" and "ax2 fig' = ax2 fig" and "ax3 fig' = ax3 fig"
    and "snd (suptitle fig') = snd (suptitle fig)"
    and "map_option line_times (ax1 fig') = map_option line_times (ax1 fig)"
    and "map_option line_cumulative (ax1 fig') = map_option line_cumulative (ax1 fig)"
proof -
  have e: "transfers_per_node data' = transfers_per_node data"
    "avg_transfers_per_node data' = avg_transfers_per_node data"
    "transfers_per_year data' = transfers_per_year data"
    "sim_time_years data' = sim_time_years data"
    "transfer_completions (metrics data') = transfer_completions (metrics data)"
    "total_nodes (metadata data') = total_nodes (metadata data)"
    "data_loss_events (metadata data') = data_loss_events (metadata data)"
    by (simp_all add: assms(1) transfers_per_node_def analyze_transfers_by_node_def
        avg_transfers_per_node_def transfers_per_year_def sim_time_years_def)
  note p = create_analysis_plot_panels [OF assms(2)]
  note p' = create_analysis_plot_panels [OF assms(3)]
  show "path' = path" by (simp add: p(1) p'(1))
  show "ax2 fig' = ax2 fig" by (simp add: p(3) p'(3) e)
  show "ax3 fig' = ax3 fig" using p(4) p'(4) by (auto simp: e)
  show "snd (suptitle fig') = snd (suptitle fig)" by (simp add: p(2) p'(2) e)
  have l: "draw_panel1 data = Inr (ax1 fig)" "draw_panel1 data' = Inr (ax1 fig')"
    by (rule create_analysis_plot_ax1 [OF assms(2)], rule create_analysis_plot_ax1 [OF assms(3)])
  have "map_option line_times (ax1 fig') = map_option line_times (ax1 fig)
      \<and> map_option line_cumulative (ax1 fig') = map_option line_cumulative (ax1 fig)"
  proof (cases "transfer_completions (metrics data) = []")
    case True
    with l e(5) have "ax1 fig = None" "ax1 fig' = None"
      by (simp_all add: draw_panel1_def)
    then show ?thesis by simp
  next
    case False
    from draw_panel1_line [OF l(1) False] obtain p where
      p: "ax1 fig = Some p"
        "(line_times p, line_cumulative p) = cumulative_series (transfer_completions (metrics data))"
      by blast
    from False e(5) have "transfer_completions (metrics data') \<noteq> []"
      by simp
    from draw_panel1_line [OF l(2) this] obtain q where
      q: "ax1 fig' = Some q"
        "(line_times q, line_cumulative q) = cumulative_series (transfer_completions (metrics data'))"
      by blast
    from p q e(5) show ?thesis
      by (metis Pair_inject option.simps(9))
  qed
  then show "map_option line_times (ax1 fig') = map_option line_times (ax1 fig)"
    and "map_option line_cumulative (ax1 fig') = map_option line_cumulative (ax1 fig)"
    by simp_all
qed

lemma par_transfers:
  "transfer_completions (metrics par_record) =
     [(0, ''x'', 5, ''A'', ''B''), (43200, ''x'', 6, ''B'', ''A''), (86400, ''x'', 7, ''A'', ''C'')]"
  by (simp add: par_record_def abc_record_def)

lemma par_overlay:
  "concurrency_overlay True par_npz =
     Inr (Some \<lparr>overlay_times = [0, 1 / 2, 1, 3 / 2], overlay_concurrent = [2, 3, 0, 3],
                overlay_max = 3\<rparr>)"
proof -
  have k: "Suc 0 = sample_step_of (length [0, 43200, 86400, 129600 :: real]) 2000"
    by (simp add: sample_step_of_def)
  show ?thesis
    by (simp add: concurrency_overlay_eq [OF par_has_concurrency par_series(1,2,3) _ _ k refl]
        every_kth_1)
qed

lemma par_concurrent_stats: "concurrent_stats True par_npz = Inr (Some (3, Some 2))"
proof -
  have k: "Suc 0 = sample_step_of (length [0, 43200, 86400, 129600 :: real]) 1000"
    by (simp add: sample_step_of_def)
  show ?thesis
    by (simp add: concurrent_stats_eq [OF par_has_concurrency par_series(1,2,3) _ k refl]
        every_kth_1 mean_def)
qed

lemma par_bandwidth_stats: "bandwidth_stats par_npz = Inr (Some 25, Some (75 / 2))"
proof -
  have k: "Suc 0 = sample_step_of (length [0, 86400 :: real]) 1000"
    by (simp add: sample_step_of_def)
  have w: "bandwidth_window par_npz = Inr ([50, 0], [100, 0], [30, 10], [60, 40])"
    by (simp add: bandwidth_window_eq [OF par_series(4,5,6,7,8) k] every_kth_1)
  have u: "utilization [50, 0] [100, 0] = Inr (Some 25)"
    by (simp add: mean_ratio mean_def)
  have d: "utilization [30, 10] [60, 40] = Inr (Some (75 / 2))"
    by (simp add: mean_ratio mean_def)
  show ?thesis
    by (simp add: bandwidth_stats_def par_series w u d)
qed

lemma par_plot: "create_analysis_plot par_record ''plot.png'' = Inr (''plot.png'', par_figure)"
proof -
  have m: "parallel_enabled (metadata par_record) = True"
     "total_nodes (metadata par_record) = 3" "data_loss_events (metadata par_record) = 0"
     "raw_data par_record = par_npz"
    by (simp_all add: par_record_def abc_record_def)
  have u: "[1 ..< 4] = [1, 2, 3 :: nat]"
    by (simp add: upt_rec)
  have p1: "draw_panel1 par_record =
      Inr (Some \<lparr>line_times = [0, 1 / 2, 1], line_cumulative = [1, 2, 3],
                  twin = Some \<lparr>overlay_times = [0, 1 / 2, 1, 3 / 2],
                                overlay_concurrent = [2, 3, 0, 3],
                                overlay_max = 3\<rparr>,
                  title_total = 3, title_max_concurrent = Some 3\<rparr>)"
    by (simp add: draw_panel1_def m par_overlay par_transfers cumulative_series_def u)
  have a: "avg_transfers_per_node par_record = Inr 1"
    by (simp add: avg_transfers_per_node_def truediv_def m par_transfers)
  have y: "sim_time_years par_record = 8 / 1461"
    by (simp add: sim_time_years_def par_record_def abc_record_def)
  have p: "transfers_per_year par_record = Inr (4383 / 8)"
    by (simp add: transfers_per_year_def y par_transfers truediv_def)
  show ?thesis
    by (simp add: create_analysis_plot_def p1 per_node_example(2) [OF par_transfers]
        a y p m par_bandwidth_stats par_concurrent_stats par_transfers par_figure_def)
qed

text \<open>
  Claim C9, evaluated on the parallel run. Both entry points are
  \<open>create_analysis_plot\<close>, and for this run the mode shows in the super-title and in
  the overlay of panel 1 with the maximum in its title. The statistics line for the
  concurrency is computed, \<open>concurrent_stats\<close> giving a maximum of 3 and a mean of 2, but
  \<^verbatim>\<open>stats_text\<close> has no placeholder for it: the statistics panel of the parallel figure
  holds the six values of every figure, and equals that of the single-mode run of the
  same transfers.
\<close>

theorem concurrency_statistics_not_rendered:
  "process_data par_npz = Inr par_record
   \<and> parallel_enabled (metadata par_record)
   \<and> concurrent_stats (parallel_enabled (metadata par_record)) (raw_data par_record) =
       Inr (Some (3, Some 2))
   \<and> plot_parallel_mode_analysis par_record ''plot.png'' = Inr (''plot.png'', par_figure)
   \<and> ax3 par_figure =
       \<lparr>stat_total_transfers = 3, stat_simulation_time = 8 / 1461, stat_total_nodes = 3,
        stat_avg_transfers_per_node = 1, stat_transfers_per_year = 4383 / 8,
        stat_data_loss_events = 0\<rparr>
   \<and> plot_single_mode_analysis abc_record ''plot.png'' = Inr (''plot.png'', abc_figure)
   \<and> ax3 par_figure = ax3 abc_figure"
proof -
  have m: "parallel_enabled (metadata par_record)" "raw_data par_record = par_npz"
    by (simp_all add: par_record_def abc_record_def)
  show ?thesis
    by (simp add: process_par m par_concurrent_stats entry_points_unified par_plot abc_plot)
       (simp add: par_figure_def abc_figure_def)
qed

end
